theory Spec2Isabelle
  imports Main "HOL-Library.AList"
begin

section \<open>Go strings\<close>

text \<open>
  A Go string is a sequence of bytes: \<open>len\<close> counts bytes and \<open>s[i:j]\<close> slices bytes.
  \<^typ>\<open>string\<close> is a list of 8-bit characters, so \<^const>\<open>length\<close>, \<^const>\<open>take\<close> and
  \<open>@\<close> are the Go operations. \<open>fmt.Sprintf\<close> with only \<open>%s\<close> verbs on string
  arguments is concatenation.
\<close>

text \<open>\<open>strings.HasPrefix(s, prefix)\<close>.\<close>

fun HasPrefix :: "string \<Rightarrow> string \<Rightarrow> bool" where
  "HasPrefix s [] = True"
| "HasPrefix [] (p # ps) = False"
| "HasPrefix (c # cs) (p # ps) = (c = p \<and> HasPrefix cs ps)"

text \<open>\<open>strings.Contains(s, substr)\<close>: \<open>substr\<close> starts at some position of \<open>s\<close>.\<close>

fun Contains :: "string \<Rightarrow> string \<Rightarrow> bool" where
  "Contains [] substr = (substr = [])"
| "Contains (c # cs) substr = (HasPrefix (c # cs) substr \<or> Contains cs substr)"

text \<open>\<open>strings.HasSuffix\<close> and \<open>strings.TrimSuffix(s, suffix)\<close>.\<close>

definition HasSuffix :: "string \<Rightarrow> string \<Rightarrow> bool" where
  "HasSuffix s suffix =
     (length suffix \<le> length s \<and> drop (length s - length suffix) s = suffix)"

definition TrimSuffix :: "string \<Rightarrow> string \<Rightarrow> string" where
  "TrimSuffix s suffix =
     (if HasSuffix s suffix then take (length s - length suffix) s else s)"

text \<open>
  \<open>strings.SplitN(s, sep, 2)\<close> for a one-byte separator: the text before the first
  occurrence of the separator and the whole text after it, or \<open>s\<close> alone when the separator
  does not occur.
\<close>

definition SplitN2 :: "string \<Rightarrow> char \<Rightarrow> string list" where
  "SplitN2 s sep =
     (if sep \<in> set s
      then [takeWhile (\<lambda>c. c \<noteq> sep) s, tl (dropWhile (\<lambda>c. c \<noteq> sep) s)]
      else [s])"

section \<open>Outcomes of a command\<close>

text \<open>
  A Go error is represented by its message. A command ends by returning from \<open>run\<close>,
  by \<open>os.Exit(code)\<close>, or by a run-time panic (an index out of range, an assignment to
  an entry of a nil map).
\<close>

type_synonym error = string

datatype panic = IndexOutOfRange | NilMapAssignment

datatype outcome = Exit int | Panic panic

text \<open>Indexing a slice at position 1, as in \<open>strings.SplitN(x, "/", 2)[1]\<close>.\<close>

definition index1 :: "'a list \<Rightarrow> outcome + 'a" where
  "index1 xs = (if 1 < length xs then Inr (xs ! 1) else Inl (Panic IndexOutOfRange))"

section \<open>Data of the aws and ocm packages\<close>

datatype roleType =
  InstallerAccountRole | SupportAccountRole | ControlPlaneAccountRole | WorkerAccountRole

record AccountRole =
  RoleName :: string

record Operator =
  OpName :: string
  OpNamespace :: string
  OpMinVersion :: string

record Creator =
  AccountID :: string

record OperatorIAMRole =
  Name :: string
  Namespace :: string
  RoleARN :: string

text \<open>
  \<open>CreateManagedServiceArgs\<close>. \<open>Parameters\<close> is a Go map from string to string: its zero
  value is the nil map (\<^const>\<open>None\<close>), which can be read but not assigned to.
\<close>

record CreateManagedServiceArgs =
  ServiceName :: string
  ClusterName :: string
  AwsRoleARN :: string
  AwsSupportRoleARN :: string
  AwsControlPlaneRoleARN :: string
  AwsWorkerRoleARN :: string
  AwsAccountID :: string
  AwsRegion :: string
  AwsOperatorIamRoleList :: "OperatorIAMRole list"
  Parameters :: "(string \<times> string) list option"

section \<open>The helpers of create service\<close>

text \<open>
  \<open>getAccountRolePrefix\<close>. \<open>arn.Parse\<close> belongs to the AWS SDK; it is a parameter that
  returns the resource section of the ARN or an error.
\<close>

definition getAccountRolePrefix ::
  "(string \<Rightarrow> error + string) \<Rightarrow> string \<Rightarrow> AccountRole \<Rightarrow> outcome + (error + string)" where
  "getAccountRolePrefix arnParse roleARN role =
     (case arnParse roleARN of
        Inl err \<Rightarrow> Inr (Inl err)
      | Inr resource \<Rightarrow>
          (case index1 (SplitN2 resource CHR ''/'') of
             Inl p \<Rightarrow> Inl p
           | Inr roleName \<Rightarrow>
               Inr (Inr (TrimSuffix roleName (''-'' @ RoleName role @ ''-Role'')))))"

text \<open>\<open>getRolePrefix\<close>; the random label of \<open>ocm.RandomLabel(4)\<close> is a parameter.\<close>

definition getRolePrefix :: "string \<Rightarrow> string \<Rightarrow> string" where
  "getRolePrefix randomLabel clusterName = clusterName @ ''-'' @ randomLabel"

definition getOperatorRoleArn :: "string \<Rightarrow> Operator \<Rightarrow> Creator \<Rightarrow> string" where
  "getOperatorRoleArn prefix operator creator =
     (let role = prefix @ ''-'' @ OpNamespace operator @ ''-'' @ OpName operator;
          role = (if length role > 64 then take 64 role else role)
      in ''arn:aws:iam::'' @ AccountID creator @ '':role/'' @ role)"

section \<open>Processes: a trace of effects and an early end\<close>

text \<open>
  What the command does to the outside world is recorded as a trace of events: the
  messages given to the reporter, and the calls to AWS and to the OCM API, in the order
  in which they happen. A process yields its trace and either the way the command ended
  early or a value with which the command goes on.
\<close>

datatype event =
    Errorf string
  | Warnf string
  | Infof string
  | Debugf string
  | CallFindRoleARNs roleType string
  | CallInteractiveEnable
  | CallGetCreator
  | CallValidateRoleNameAvailable string
  | CallGetRegion string
  | CallGetAddOn string
  | CallCreateManagedService CreateManagedServiceArgs
  | CallClose
  | CallListManagedServices nat
  | Fprintf string
  | Flush

type_synonym 'a proc = "event list \<times> (outcome + 'a)"

definition return :: "'a \<Rightarrow> 'a proc" where
  "return x = ([], Inr x)"

definition emit :: "event \<Rightarrow> unit proc" where
  "emit e = ([e], Inr ())"

definition os_Exit :: "int \<Rightarrow> 'a proc" where
  "os_Exit code = ([], Inl (Exit code))"

definition raise :: "panic \<Rightarrow> 'a proc" where
  "raise p = ([], Inl (Panic p))"

definition bind :: "'a proc \<Rightarrow> ('a \<Rightarrow> 'b proc) \<Rightarrow> 'b proc" where
  "bind m f =
     (case m of
        (t, Inl out) \<Rightarrow> (t, Inl out)
      | (t, Inr x) \<Rightarrow> (case f x of (t', r) \<Rightarrow> (t @ t', r)))"

text \<open>\<open>reporter.Errorf(...); os.Exit(1)\<close>.\<close>

definition fatal :: "string \<Rightarrow> 'a proc" where
  "fatal msg = bind (emit (Errorf msg)) (\<lambda>_. os_Exit 1)"

text \<open>A \<open>for ... range\<close> loop over a slice, threading the variables the body assigns.\<close>

fun forEach :: "'a list \<Rightarrow> ('a \<Rightarrow> 's \<Rightarrow> 's proc) \<Rightarrow> 's \<Rightarrow> 's proc" where
  "forEach [] body s = return s"
| "forEach (x # xs) body s = bind (body x s) (forEach xs body)"

section \<open>The environment of create service\<close>

text \<open>
  Everything \<open>run\<close> reads from outside this file: the results of the calls to AWS and to
  the OCM API, the tables and constants of package \<open>aws\<close>, the helpers of package
  \<open>ocm\<close>, and the flag set of the command. \<open>AccountRoles\<close> and \<open>CredentialRequests\<close> are
  Go maps; they are given as the list of their entries in the order in which this run
  iterates over them. Flag \<open>service\<close> is bound to \<open>args.ServiceName\<close> and flag
  \<open>clusterName\<close> to \<open>args.ClusterName\<close>; \<open>otherFlags\<close> are the flags the command
  inherits. \<open>GetAddOn\<close> returns an add-on and an error; of the add-on only the IDs of
  \<open>Parameters()\<close> are used (\<^const>\<open>None\<close> when \<open>Parameters()\<close> is nil).
\<close>

record createEnv =
  ocm_Build :: "error option"
  ocm_Close :: "error option"
  ocm_GetVersionMinor :: "string \<Rightarrow> string"
  ocm_CheckSupportedVersion :: "string \<Rightarrow> string \<Rightarrow> error + bool"
  ocm_RandomLabel :: string
  ocm_GetAddOn :: "string \<Rightarrow> string list option \<times> error option"
  ocm_CreateManagedService :: "CreateManagedServiceArgs \<Rightarrow> error + string"
  aws_AccountRoles :: "(roleType \<times> AccountRole) list"
  aws_DefaultPrefix :: string
  aws_CredentialRequests :: "Operator list"
  aws_FindRoleARNs :: "roleType \<Rightarrow> string \<Rightarrow> error + string list"
  aws_GetCreator :: "error + Creator"
  aws_ValidateRoleNameAvailable :: "string \<Rightarrow> error option"
  aws_GetRegion :: "string \<Rightarrow> error + string"
  arn_Parse :: "string \<Rightarrow> error + string"
  output_HasFlag :: bool
  reporter_IsTerminal :: bool
  serviceFlag :: string
  clusterNameFlag :: string
  otherFlags :: "(string \<times> string) list"

text \<open>\<open>aws.AccountRoles[roleType]\<close>: the zero \<open>AccountRole\<close> for a missing key.\<close>

definition accountRole :: "createEnv \<Rightarrow> roleType \<Rightarrow> AccountRole" where
  "accountRole env roleType =
     (case map_of (aws_AccountRoles env) roleType of
        None \<Rightarrow> \<lparr>RoleName = ''''\<rparr>
      | Some role \<Rightarrow> role)"

text \<open>\<open>cmd.Flags().Lookup(name)\<close> followed by \<open>flag.Value.String()\<close>.\<close>

definition flagLookup :: "createEnv \<Rightarrow> string \<Rightarrow> string option" where
  "flagLookup env name =
     map_of ((''service'', serviceFlag env) # (''clusterName'', clusterNameFlag env)
             # otherFlags env) name"

text \<open>The package variable \<open>args\<close> when \<open>run\<close> starts: the two flags, all else zero.\<close>

definition initialArgs :: "createEnv \<Rightarrow> CreateManagedServiceArgs" where
  "initialArgs env =
     \<lparr>ServiceName = serviceFlag env, ClusterName = clusterNameFlag env,
      AwsRoleARN = '''', AwsSupportRoleARN = '''', AwsControlPlaneRoleARN = '''',
      AwsWorkerRoleARN = '''', AwsAccountID = '''', AwsRegion = '''',
      AwsOperatorIamRoleList = [], Parameters = None\<rparr>"

text \<open>\<open>if !output.HasFlag() || reporter.IsTerminal() { reporter.Infof(...) }\<close>.\<close>

definition infoUsing :: "createEnv \<Rightarrow> string \<Rightarrow> AccountRole \<Rightarrow> unit proc" where
  "infoUsing env arn role =
     (if \<not> output_HasFlag env \<or> reporter_IsTerminal env
      then emit (Infof (''Using '' @ arn @ '' for the '' @ RoleName role @ '' role''))
      else return ())"

section \<open>Account roles\<close>

text \<open>The local variables of \<open>run\<close> that the account-role resolution assigns.\<close>

record roleVars =
  roleARN :: string
  supportRoleARN :: string
  controlPlaneRoleARN :: string
  workerRoleARN :: string
  hasRoles :: bool

definition findRoleARNs :: "createEnv \<Rightarrow> roleType \<Rightarrow> string \<Rightarrow> AccountRole \<Rightarrow> string list proc" where
  "findRoleARNs env roleType minor role =
     bind (emit (CallFindRoleARNs roleType minor)) (\<lambda>_.
       case aws_FindRoleARNs env roleType minor of
         Inl err \<Rightarrow> fatal (''Failed to find '' @ RoleName role @ '' role: '' @ err)
       | Inr roleARNs \<Rightarrow> return roleARNs)"

text \<open>
  The loop \<open>for _, rARN := range roleARNs\<close> that keeps in a variable the last ARN
  containing the pattern; \<open>start\<close> is the value of the variable before the loop.
\<close>

definition lastContaining :: "string \<Rightarrow> string \<Rightarrow> string list \<Rightarrow> string" where
  "lastContaining pattern start roleARNs =
     foldl (\<lambda>selected rARN. if Contains rARN pattern then rARN else selected) start roleARNs"

text \<open>Lines 108 to 126: the installer role among the ARNs found.\<close>

definition selectInstallerRole :: "createEnv \<Rightarrow> AccountRole \<Rightarrow> string list \<Rightarrow> string proc" where
  "selectInstallerRole env role roleARNs =
     (if length roleARNs > 1 then
        (let defaultRoleARN =
               lastContaining (aws_DefaultPrefix env @ ''-'' @ RoleName role @ ''-Role'')
                 (roleARNs ! 0) roleARNs
         in bind (emit (Warnf (''More than one '' @ RoleName role @ '' role found, going with ''
                                 @ defaultRoleARN)))
              (\<lambda>_. return defaultRoleARN))
      else if length roleARNs = 1 then
        bind (infoUsing env (roleARNs ! 0) role) (\<lambda>_. return (roleARNs ! 0))
      else
        bind (emit (Errorf (''No account roles found. '' @
                 ''You will need to run 'rosa create account-roles' to create them first.'')))
          (\<lambda>_. return ''''))"

text \<open>The \<open>switch roleType\<close> at the end of the loop body.\<close>

fun assignRole :: "roleType \<Rightarrow> string \<Rightarrow> roleVars \<Rightarrow> roleVars" where
  "assignRole InstallerAccountRole selectedARN vars = vars\<lparr>roleARN := selectedARN\<rparr>"
| "assignRole SupportAccountRole selectedARN vars = vars\<lparr>supportRoleARN := selectedARN\<rparr>"
| "assignRole ControlPlaneAccountRole selectedARN vars = vars\<lparr>controlPlaneRoleARN := selectedARN\<rparr>"
| "assignRole WorkerAccountRole selectedARN vars = vars\<lparr>workerRoleARN := selectedARN\<rparr>"

text \<open>The variable that the \<open>switch roleType\<close> assigns for a role category.\<close>

fun roleVar :: "roleType \<Rightarrow> roleVars \<Rightarrow> string" where
  "roleVar InstallerAccountRole vars = roleARN vars"
| "roleVar SupportAccountRole vars = supportRoleARN vars"
| "roleVar ControlPlaneAccountRole vars = controlPlaneRoleARN vars"
| "roleVar WorkerAccountRole vars = workerRoleARN vars"

text \<open>The body of \<open>for roleType, role := range aws.AccountRoles\<close>, lines 139 to 173.\<close>

definition resolveRole ::
  "createEnv \<Rightarrow> string \<Rightarrow> string \<Rightarrow> roleType \<times> AccountRole \<Rightarrow> roleVars \<Rightarrow> roleVars proc" where
  "resolveRole env minor rolePrefix entry vars =
     (case entry of (roleType, role) \<Rightarrow>
        if roleType = InstallerAccountRole then return vars
        else
          bind (findRoleARNs env roleType minor role) (\<lambda>roleARNs.
            let selectedARN =
                  lastContaining (rolePrefix @ ''-'' @ RoleName role @ ''-Role'') '''' roleARNs
            in bind (if selectedARN = ''''
                     then bind (emit (Errorf (''No '' @ RoleName role @ '' account roles found. '' @
                                  ''You will need to run 'rosa create account-roles' to create them first.'')))
                            (\<lambda>_. bind (emit CallInteractiveEnable)
                            (\<lambda>_. return (vars\<lparr>hasRoles := False\<rparr>)))
                     else return vars) (\<lambda>vars.
               bind (infoUsing env selectedARN role) (\<lambda>_.
               return (assignRole roleType selectedARN vars)))))"

text \<open>Lines 128 to 175: the block under \<open>if roleARN != ""\<close>.\<close>

definition resolveDependentRoles ::
  "createEnv \<Rightarrow> string \<Rightarrow> AccountRole \<Rightarrow> roleVars \<Rightarrow> roleVars proc" where
  "resolveDependentRoles env minor role vars =
     (if roleARN vars \<noteq> '''' then
        (case getAccountRolePrefix (arn_Parse env) (roleARN vars) role of
           Inl out \<Rightarrow> ([], Inl out)
         | Inr (Inl err) \<Rightarrow>
             fatal (''Failed to find prefix from '' @ RoleName role @ '' account role'')
         | Inr (Inr rolePrefix) \<Rightarrow>
             bind (emit (Debugf (''Using '' @ [CHR 0x27] @ rolePrefix @ [CHR 0x27] @ '' as the role prefix''))) (\<lambda>_.
             forEach (aws_AccountRoles env) (resolveRole env minor rolePrefix)
               (vars\<lparr>hasRoles := True\<rparr>)))
      else return vars)"

text \<open>
  Lines 89 to 175: the four role ARNs and \<open>hasRoles\<close>, as they stand when the check of
  \<open>hasRoles\<close> is reached.
\<close>

definition resolveRoleVars :: "createEnv \<Rightarrow> string \<Rightarrow> roleVars proc" where
  "resolveRoleVars env version =
     (let minor = ocm_GetVersionMinor env version;
          role = accountRole env InstallerAccountRole
      in bind (findRoleARNs env InstallerAccountRole minor role) (\<lambda>roleARNs.
         bind (selectInstallerRole env role roleARNs) (\<lambda>installer.
         resolveDependentRoles env minor role
           \<lparr>roleARN = installer, supportRoleARN = '''', controlPlaneRoleARN = '''',
            workerRoleARN = '''', hasRoles = False\<rparr>)))"

text \<open>Lines 89 to 184: the account roles, checked and stored in \<open>args\<close>.\<close>

definition resolveAccountRoles ::
  "createEnv \<Rightarrow> string \<Rightarrow> CreateManagedServiceArgs \<Rightarrow> CreateManagedServiceArgs proc" where
  "resolveAccountRoles env version args =
     bind (resolveRoleVars env version) (\<lambda>vars.
       if hasRoles vars = False
       then fatal ''Please create the above roles to continue''
       else return (args\<lparr>AwsRoleARN := roleARN vars,
                          AwsSupportRoleARN := supportRoleARN vars,
                          AwsControlPlaneRoleARN := controlPlaneRoleARN vars,
                          AwsWorkerRoleARN := workerRoleARN vars\<rparr>))"

section \<open>Operator roles\<close>

text \<open>The body of \<open>for _, operator := range aws.CredentialRequests\<close>, lines 197 to 212.\<close>

definition operatorIAMRole :: "string \<Rightarrow> Creator \<Rightarrow> Operator \<Rightarrow> OperatorIAMRole" where
  "operatorIAMRole operatorRolesPrefix awsCreator operator =
     \<lparr>Name = OpName operator, Namespace = OpNamespace operator,
      RoleARN = getOperatorRoleArn operatorRolesPrefix operator awsCreator\<rparr>"

definition planOperator ::
  "createEnv \<Rightarrow> string \<Rightarrow> string \<Rightarrow> Creator \<Rightarrow> Operator \<Rightarrow> OperatorIAMRole list
     \<Rightarrow> OperatorIAMRole list proc" where
  "planOperator env version operatorRolesPrefix awsCreator operator operatorIAMRoleList =
     (if OpMinVersion operator \<noteq> '''' then
        (case ocm_CheckSupportedVersion env (ocm_GetVersionMinor env version)
                (OpMinVersion operator) of
           Inl err \<Rightarrow>
             fatal (''Error validating operator role '' @ [CHR 0x27] @ OpName operator
                    @ [CHR 0x27] @ '' version '' @ err)
         | Inr isSupported \<Rightarrow>
             if \<not> isSupported then return operatorIAMRoleList
             else return (operatorIAMRoleList
                          @ [operatorIAMRole operatorRolesPrefix awsCreator operator]))
      else return (operatorIAMRoleList
                   @ [operatorIAMRole operatorRolesPrefix awsCreator operator]))"

text \<open>The body of the loop that validates the role names, lines 217 to 222.\<close>

definition validateRoleName :: "createEnv \<Rightarrow> OperatorIAMRole \<Rightarrow> unit \<Rightarrow> unit proc" where
  "validateRoleName env role u =
     (case index1 (SplitN2 (RoleARN role) CHR ''/'') of
        Inl out \<Rightarrow> ([], Inl out)
      | Inr name \<Rightarrow>
          bind (emit (CallValidateRoleNameAvailable name)) (\<lambda>_.
            case aws_ValidateRoleNameAvailable env name of
              Some err \<Rightarrow> fatal (''Error validating role: '' @ err)
            | None \<Rightarrow> return ()))"

text \<open>Lines 186 to 245: the operator roles and the account ID, stored in \<open>args\<close>.\<close>

definition resolveOperatorRoles ::
  "createEnv \<Rightarrow> string \<Rightarrow> CreateManagedServiceArgs \<Rightarrow> CreateManagedServiceArgs proc" where
  "resolveOperatorRoles env version args =
     bind (emit CallGetCreator) (\<lambda>_.
       case aws_GetCreator env of
         Inl err \<Rightarrow> fatal (''Unable to get IAM credentials: '' @ err)
       | Inr awsCreator \<Rightarrow>
           (let operatorRolesPrefix = getRolePrefix (ocm_RandomLabel env) (ClusterName args)
            in bind (forEach (aws_CredentialRequests env)
                       (planOperator env version operatorRolesPrefix awsCreator) [])
                 (\<lambda>operatorIAMRoleList.
               bind (forEach operatorIAMRoleList (validateRoleName env) ()) (\<lambda>_.
               return (args\<lparr>AwsOperatorIamRoleList := operatorIAMRoleList,
                             AwsAccountID := AccountID awsCreator\<rparr>)))))"

section \<open>Region, add-on parameters and the create request\<close>

text \<open>Lines 247 to 253.\<close>

definition resolveRegion :: "createEnv \<Rightarrow> CreateManagedServiceArgs \<Rightarrow> CreateManagedServiceArgs proc" where
  "resolveRegion env args =
     bind (emit (CallGetRegion '''')) (\<lambda>_.
       case aws_GetRegion env '''' of
         Inl err \<Rightarrow> fatal (''Error getting region: '' @ err)
       | Inr region \<Rightarrow>
           bind (emit (Infof (''Using AWS region: '' @ region))) (\<lambda>_.
           return (args\<lparr>AwsRegion := region\<rparr>)))"

text \<open>
  The callback given to \<open>addOnParameters.Each\<close>, lines 263 to 267. The assignment
  \<open>args.Parameters[param.ID()] = ...\<close> panics when the map is nil.
\<close>

definition setParameter ::
  "createEnv \<Rightarrow> string \<Rightarrow> CreateManagedServiceArgs \<Rightarrow> CreateManagedServiceArgs proc" where
  "setParameter env paramID args =
     (case flagLookup env paramID of
        None \<Rightarrow> return args
      | Some v \<Rightarrow>
          (case Parameters args of
             None \<Rightarrow> raise NilMapAssignment
           | Some m \<Rightarrow> return (args\<lparr>Parameters := Some (AList.update paramID v m)\<rparr>)))"

text \<open>Lines 255 to 269. The error of \<open>GetAddOn\<close> is reported and \<open>run\<close> goes on.\<close>

definition resolveParameters ::
  "createEnv \<Rightarrow> CreateManagedServiceArgs \<Rightarrow> CreateManagedServiceArgs proc" where
  "resolveParameters env args =
     bind (emit (CallGetAddOn (ServiceName args))) (\<lambda>_.
       case ocm_GetAddOn env (ServiceName args) of (addOnParameters, err) \<Rightarrow>
         bind (case err of
                 Some e \<Rightarrow> emit (Errorf (''Failed to process service parameters: '' @ e))
               | None \<Rightarrow> return ()) (\<lambda>_.
           case addOnParameters of
             None \<Rightarrow> return args
           | Some paramIDs \<Rightarrow> forEach paramIDs (setParameter env) args))"

text \<open>Lines 271 to 287.\<close>

definition createService :: "createEnv \<Rightarrow> CreateManagedServiceArgs \<Rightarrow> unit proc" where
  "createService env args =
     bind (emit (CallCreateManagedService args)) (\<lambda>_.
       case ocm_CreateManagedService env args of
         Inl err \<Rightarrow> fatal (''Failed to create managed service: '' @ err)
       | Inr service \<Rightarrow>
           bind (emit (Infof service)) (\<lambda>_.
             let rolesCMD = ''rosa create operator-roles --cluster '' @ ClusterName args;
                 oidcCMD = ''rosa create oidc-provider --cluster '' @ ClusterName args
             in emit (Infof (''Run the following commands to continue the cluster creation:''
                             @ [CHR 0x0A, CHR 0x0A, CHR 0x09] @ rolesCMD
                             @ [CHR 0x0A, CHR 0x09] @ oidcCMD @ [CHR 0x0A]))))"

section \<open>The command create service\<close>

text \<open>
  \<open>defer func() { err = ocmClient.Close() ... }()\<close>: the deferred function runs when
  \<open>run\<close> returns and when it panics, and does not run after \<open>os.Exit\<close>.
\<close>

definition deferredClose :: "error option \<Rightarrow> unit proc \<Rightarrow> unit proc" where
  "deferredClose closeResult body =
     (case body of
        (t, Inl (Exit code)) \<Rightarrow> (t, Inl (Exit code))
      | (t, r) \<Rightarrow>
          (t @ CallClose #
             (case closeResult of
                Some err \<Rightarrow> [Errorf (''Failed to close OCM connection: '' @ err)]
              | None \<Rightarrow> []),
           r))"

text \<open>
  The body of \<open>run\<close> once the OCM connection exists, lines 87 to 287. The reporter,
  the logger and the AWS client, which \<open>run\<close> obtains from other packages before its
  first step, are taken as given.
\<close>

definition runConnected :: "createEnv \<Rightarrow> unit proc" where
  "runConnected env =
     (let version = ''4.9''
      in bind (resolveAccountRoles env version (initialArgs env)) (\<lambda>args.
         bind (resolveOperatorRoles env version args) (\<lambda>args.
         bind (resolveRegion env args) (\<lambda>args.
         bind (resolveParameters env args) (\<lambda>args.
         createService env args)))))"

definition run :: "createEnv \<Rightarrow> unit proc" where
  "run env =
     (case ocm_Build env of
        Some err \<Rightarrow> fatal (''Failed to create OCM connection: '' @ err)
      | None \<Rightarrow> deferredClose (ocm_Close env) (runConnected env))"

section \<open>The command list services\<close>

record ManagedService =
  ID :: string
  Service :: string
  ServiceState :: string

record listEnv =
  list_ocm_Build :: "error option"
  list_ocm_Close :: "error option"
  ocm_ListManagedServices :: "nat \<Rightarrow> error + ManagedService list"

text \<open>The callback given to \<open>servicesList.Each\<close>: one row written to the tabwriter.\<close>

definition printService :: "ManagedService \<Rightarrow> unit \<Rightarrow> unit proc" where
  "printService srv u =
     emit (Fprintf (ID srv @ [CHR 0x09] @ Service srv @ [CHR 0x09] @ ServiceState srv
                    @ [CHR 0x0A]))"

definition listConnected :: "listEnv \<Rightarrow> unit proc" where
  "listConnected env =
     bind (emit (CallListManagedServices 1000)) (\<lambda>_.
       case ocm_ListManagedServices env 1000 of
         Inl err \<Rightarrow> fatal (''Failed to retrieve list of managed services: '' @ err)
       | Inr servicesList \<Rightarrow>
           bind (emit (Fprintf (''ID'' @ [CHR 0x09] @ ''SERVICE'' @ [CHR 0x09] @ ''STATE''
                                @ [CHR 0x0A]))) (\<lambda>_.
           bind (forEach servicesList printService ()) (\<lambda>_.
           emit Flush)))"

definition list_run :: "listEnv \<Rightarrow> unit proc" where
  "list_run env =
     (case list_ocm_Build env of
        Some err \<Rightarrow> fatal (''Failed to create OCM connection: '' @ err)
      | None \<Rightarrow> deferredClose (list_ocm_Close env) (listConnected env))"

text \<open>
  The text the tabwriter has received when it is flushed: what the command prints, before
  the tabwriter pads the cells that the tabs end. Nothing is printed without a flush.
\<close>

definition written :: "event list \<Rightarrow> string" where
  "written t =
     (if Flush \<in> set t
      then concat (map (\<lambda>e. case e of Fprintf s \<Rightarrow> s | _ \<Rightarrow> []) t)
      else [])"

section \<open>An example environment\<close>

text \<open>
  One environment in which every call succeeds, used to run the commands on concrete
  input: account 123456789012 with one role per category under the default prefix, three
  operators of which one needs version 4.10, and an add-on without parameters.
\<close>

definition example_CredentialRequests :: "Operator list" where
  "example_CredentialRequests =
     [\<lparr>OpName = ''aws-cloud-credentials'', OpNamespace = ''openshift-machine-api'',
       OpMinVersion = ''''\<rparr>,
      \<lparr>OpName = ''ebs-cloud-credentials'', OpNamespace = ''openshift-cluster-csi-drivers'',
       OpMinVersion = ''4.10''\<rparr>,
      \<lparr>OpName = ''cloud-credentials'', OpNamespace = ''openshift-ingress-operator'',
       OpMinVersion = ''4.8''\<rparr>]"

definition example_CheckSupportedVersion :: "string \<Rightarrow> string \<Rightarrow> error + bool" where
  "example_CheckSupportedVersion minor minVersion =
     (if minVersion = ''4.10'' then Inr (minor = ''4.10'')
      else if minVersion = ''4.8'' \<or> minVersion = ''4.9'' then Inr True
      else Inl ''Malformed version'')"

definition example_FindRoleARNs :: "roleType \<Rightarrow> string \<Rightarrow> error + string list" where
  "example_FindRoleARNs roleType minor =
     Inr [case roleType of
            InstallerAccountRole \<Rightarrow> ''arn:aws:iam::123456789012:role/ManagedOpenShift-Installer-Role''
          | SupportAccountRole \<Rightarrow> ''arn:aws:iam::123456789012:role/ManagedOpenShift-Support-Role''
          | ControlPlaneAccountRole \<Rightarrow> ''arn:aws:iam::123456789012:role/ManagedOpenShift-ControlPlane-Role''
          | WorkerAccountRole \<Rightarrow> ''arn:aws:iam::123456789012:role/ManagedOpenShift-Worker-Role'']"

definition example_arn_Parse :: "string \<Rightarrow> error + string" where
  "example_arn_Parse arn =
     (if HasPrefix arn ''arn:aws:iam::123456789012:'' then Inr (drop 26 arn)
      else Inl ''arn: invalid prefix'')"

definition example_env :: createEnv where
  "example_env =
     \<lparr>ocm_Build = None,
      ocm_Close = None,
      ocm_GetVersionMinor = (\<lambda>version. version),
      ocm_CheckSupportedVersion = example_CheckSupportedVersion,
      ocm_RandomLabel = ''ab12'',
      ocm_GetAddOn = (\<lambda>id. (None, None)),
      ocm_CreateManagedService = (\<lambda>args. Inr ''service''),
      aws_AccountRoles =
        [(InstallerAccountRole, \<lparr>RoleName = ''Installer''\<rparr>),
         (ControlPlaneAccountRole, \<lparr>RoleName = ''ControlPlane''\<rparr>),
         (WorkerAccountRole, \<lparr>RoleName = ''Worker''\<rparr>),
         (SupportAccountRole, \<lparr>RoleName = ''Support''\<rparr>)],
      aws_DefaultPrefix = ''ManagedOpenShift'',
      aws_CredentialRequests = example_CredentialRequests,
      aws_FindRoleARNs = example_FindRoleARNs,
      aws_GetCreator = Inr \<lparr>AccountID = ''123456789012''\<rparr>,
      aws_ValidateRoleNameAvailable = (\<lambda>name. None),
      aws_GetRegion = (\<lambda>region. Inr ''us-east-1''),
      arn_Parse = example_arn_Parse,
      output_HasFlag = False,
      reporter_IsTerminal = True,
      serviceFlag = ''s1'',
      clusterNameFlag = ''c1'',
      otherFlags = [(''help'', ''false'')]\<rparr>"

text \<open>An example of the services that the managed-service API lists.\<close>

definition example_listEnv :: listEnv where
  "example_listEnv =
     \<lparr>list_ocm_Build = None,
      list_ocm_Close = None,
      ocm_ListManagedServices =
        (\<lambda>limit. Inr [\<lparr>ID = ''1a2b'', Service = ''s1'', ServiceState = ''ready''\<rparr>,
                       \<lparr>ID = ''3c4d'', Service = ''s2'', ServiceState = ''installing''\<rparr>])\<rparr>"

text \<open>The request that \<open>run\<close> issues in the example environment.\<close>

definition example_args :: CreateManagedServiceArgs where
  "example_args =
     \<lparr>ServiceName = ''s1'', ClusterName = ''c1'',
      AwsRoleARN = ''arn:aws:iam::123456789012:role/ManagedOpenShift-Installer-Role'',
      AwsSupportRoleARN = ''arn:aws:iam::123456789012:role/ManagedOpenShift-Support-Role'',
      AwsControlPlaneRoleARN = ''arn:aws:iam::123456789012:role/ManagedOpenShift-ControlPlane-Role'',
      AwsWorkerRoleARN = ''arn:aws:iam::123456789012:role/ManagedOpenShift-Worker-Role'',
      AwsAccountID = ''123456789012'', AwsRegion = ''us-east-1'',
      AwsOperatorIamRoleList =
        [\<lparr>Name = ''aws-cloud-credentials'', Namespace = ''openshift-machine-api'',
          RoleARN = ''arn:aws:iam::123456789012:role/c1-ab12-openshift-machine-api-aws-cloud-credentials''\<rparr>,
         \<lparr>Name = ''cloud-credentials'', Namespace = ''openshift-ingress-operator'',
          RoleARN = ''arn:aws:iam::123456789012:role/c1-ab12-openshift-ingress-operator-cloud-credentials''\<rparr>],
      Parameters = None\<rparr>"

text \<open>The example environment without a support role in the account.\<close>

definition example_env_no_support :: createEnv where
  "example_env_no_support =
     example_env\<lparr>aws_FindRoleARNs :=
       (\<lambda>roleType minor. if roleType = SupportAccountRole then Inr []
                          else example_FindRoleARNs roleType minor)\<rparr>"

text \<open>The example environment in which the lookup of the add-on fails.\<close>

definition example_env_addon_failure :: createEnv where
  "example_env_addon_failure =
     example_env\<lparr>ocm_GetAddOn := (\<lambda>id. (None, Some ''add-on not found''))\<rparr>"

text \<open>
  The example environment with an add-on that has the parameters \<open>size\<close> and
  \<open>clusterName\<close>; the second is also the name of a flag of the command.
\<close>

definition example_env_addon_parameter :: createEnv where
  "example_env_addon_parameter =
     example_env\<lparr>ocm_GetAddOn := (\<lambda>id. (Some [''size'', ''clusterName''], None))\<rparr>"


section \<open>Go strings: facts\<close>

lemma takeWhile_before_sep:
  "sep \<notin> set a \<Longrightarrow> takeWhile (\<lambda>c. c \<noteq> sep) (a @ sep # b) = a"
  by (induction a) auto

lemma dropWhile_before_sep:
  "sep \<notin> set a \<Longrightarrow> dropWhile (\<lambda>c. c \<noteq> sep) (a @ sep # b) = sep # b"
  by (induction a) auto

lemma SplitN2_append:
  "sep \<notin> set a \<Longrightarrow> SplitN2 (a @ sep # b) sep = [a, b]"
  by (simp add: SplitN2_def takeWhile_before_sep dropWhile_before_sep)

section \<open>Processes: basic facts\<close>

lemma bind_Inl [simp]: "bind (t, Inl out) f = (t, Inl out)"
  by (simp add: bind_def)

lemma bind_Inr [simp]: "bind (t, Inr x) f = (t @ fst (f x), snd (f x))"
  by (simp add: bind_def split: prod.splits)

lemma fst_bind:
  "fst (bind m f) = fst m @ (case snd m of Inl out \<Rightarrow> [] | Inr x \<Rightarrow> fst (f x))"
  by (cases m; cases "snd m") auto

lemma snd_bind:
  "snd (bind m f) = (case snd m of Inl out \<Rightarrow> Inl out | Inr x \<Rightarrow> snd (f x))"
  by (cases m; cases "snd m") auto

lemma fatal_eq [simp]: "fatal msg = ([Errorf msg], Inl (Exit 1))"
  by (simp add: fatal_def emit_def os_Exit_def)

lemma return_eq [simp]: "return x = ([], Inr x)"
  by (simp add: return_def)

lemma emit_eq [simp]: "emit e = ([e], Inr ())"
  by (simp add: emit_def)

lemma raise_eq [simp]: "raise p = ([], Inl (Panic p))"
  by (simp add: raise_def)

lemma index1_two [simp]: "index1 [a, b] = Inr b"
  by (simp add: index1_def)

lemma index1_one [simp]: "index1 [a] = Inl (Panic IndexOutOfRange)"
  by (simp add: index1_def)

lemma index1_SplitN2_present:
  "sep \<in> set s \<Longrightarrow> index1 (SplitN2 s sep) = Inr (tl (dropWhile (\<lambda>c. c \<noteq> sep) s))"
  by (simp add: SplitN2_def)

section \<open>Operator role ARNs\<close>

text \<open>
  C6: the operator role ARN is \<open>arn:aws:iam::<account-id>:role/\<close> followed by the role
  name \<open><prefix>-<namespace>-<name>\<close>; when that name is longer than 64 bytes it is
  replaced by exactly its first 64 bytes, and otherwise it is unchanged.
\<close>

theorem getOperatorRoleArn_truncates:
  assumes "full = prefix @ ''-'' @ OpNamespace operator @ ''-'' @ OpName operator"
  shows "(64 < length full \<longrightarrow>
            getOperatorRoleArn prefix operator creator
              = ''arn:aws:iam::'' @ AccountID creator @ '':role/'' @ take 64 full
            \<and> length (take 64 full) = 64)
       \<and> (length full \<le> 64 \<longrightarrow>
            getOperatorRoleArn prefix operator creator
              = ''arn:aws:iam::'' @ AccountID creator @ '':role/'' @ full)"
proof -
  have "getOperatorRoleArn prefix operator creator
          = ''arn:aws:iam::'' @ AccountID creator @ '':role/''
              @ (if 64 < length full then take 64 full else full)"
    unfolding assms by (simp add: getOperatorRoleArn_def Let_def)
  then show ?thesis by simp
qed

theorem getOperatorRoleArn_truncates_witness:
  "getOperatorRoleArn ''c1-ab12''
      \<lparr>OpName = ''cloud-credentials'', OpNamespace = ''openshift-ingress-operator'',
       OpMinVersion = ''''\<rparr> \<lparr>AccountID = ''123456789012''\<rparr>
     = ''arn:aws:iam::123456789012:role/c1-ab12-openshift-ingress-operator-cloud-credentials''
   \<and> getOperatorRoleArn ''a-cluster-with-quite-a-long-name-ab12''
      \<lparr>OpName = ''cloud-credentials'', OpNamespace = ''openshift-ingress-operator'',
       OpMinVersion = ''''\<rparr> \<lparr>AccountID = ''123456789012''\<rparr>
     = ''arn:aws:iam::123456789012:role/a-cluster-with-quite-a-long-name-ab12-openshift-ingress-operator''"
  using getOperatorRoleArn_truncates [of "''c1-ab12-openshift-ingress-operator-cloud-credentials''" "''c1-ab12''"
      "\<lparr>OpName = ''cloud-credentials'', OpNamespace = ''openshift-ingress-operator'',
       OpMinVersion = ''''\<rparr>" "\<lparr>AccountID = ''123456789012''\<rparr>"]
    getOperatorRoleArn_truncates [of "''a-cluster-with-quite-a-long-name-ab12-openshift-ingress-operator-cloud-credentials''" "''a-cluster-with-quite-a-long-name-ab12''"
      "\<lparr>OpName = ''cloud-credentials'', OpNamespace = ''openshift-ingress-operator'',
       OpMinVersion = ''''\<rparr>" "\<lparr>AccountID = ''123456789012''\<rparr>"]
  by simp

section \<open>The operator role list\<close>

lemma planOperator_eq:
  "planOperator env version p c operator acc =
     (if OpMinVersion operator \<noteq> '''' then
        (case ocm_CheckSupportedVersion env (ocm_GetVersionMinor env version)
                (OpMinVersion operator) of
           Inl err \<Rightarrow>
             ([Errorf (''Error validating operator role '' @ [CHR 0x27] @ OpName operator
                       @ [CHR 0x27] @ '' version '' @ err)], Inl (Exit 1))
         | Inr isSupported \<Rightarrow>
             ([], Inr (if isSupported then acc @ [operatorIAMRole p c operator] else acc)))
      else ([], Inr (acc @ [operatorIAMRole p c operator])))"
  by (simp add: planOperator_def split: sum.splits)

lemma forEach_Cons_Inr:
  "body x s = (t1, Inr s1) \<Longrightarrow>
   forEach (x # xs) body s = (t1 @ fst (forEach xs body s1), snd (forEach xs body s1))"
  by simp

lemma forEach_Cons_Inl:
  "body x s = (t1, Inl out) \<Longrightarrow> forEach (x # xs) body s = (t1, Inl out)"
  by simp

lemma plan_loop_result:
  "forEach ops (planOperator env version p c) acc = (t, Inr roles) \<Longrightarrow>
   roles = acc @ map (operatorIAMRole p c)
             (filter (\<lambda>operator. \<not> (OpMinVersion operator \<noteq> '''' \<and>
                 ocm_CheckSupportedVersion env (ocm_GetVersionMinor env version)
                   (OpMinVersion operator) = Inr False)) ops)"
proof (induction ops arbitrary: acc t)
  case Nil
  then show ?case by simp
next
  case (Cons operator ops)
  show ?case
  proof (cases "planOperator env version p c operator acc")
    case (Pair t1 r1)
    show ?thesis
    proof (cases r1)
      case (Inl out)
      with Pair have "forEach (operator # ops) (planOperator env version p c) acc = (t1, Inl out)"
        by (simp only: forEach_Cons_Inl)
      with Cons.prems show ?thesis by simp
    next
      case (Inr acc1)
      with Pair have step: "planOperator env version p c operator acc = (t1, Inr acc1)"
        by simp
      from forEach_Cons_Inr [where body = "planOperator env version p c" and x = operator and s = acc, OF step] Cons.prems
      have "snd (forEach ops (planOperator env version p c) acc1) = Inr roles"
        by simp
      then have rest: "forEach ops (planOperator env version p c) acc1
                    = (fst (forEach ops (planOperator env version p c) acc1), Inr roles)"
        by (simp add: prod_eq_iff)
      from step have acc1:
        "acc1 = (if \<not> (OpMinVersion operator \<noteq> '''' \<and>
                 ocm_CheckSupportedVersion env (ocm_GetVersionMinor env version)
                   (OpMinVersion operator) = Inr False)
                 then acc @ [operatorIAMRole p c operator] else acc)"
        by (auto simp add: planOperator_eq split: if_splits sum.splits)
      from Cons.IH [OF rest] acc1 show ?thesis by simp
    qed
  qed
qed




lemma getOperatorRoleArn_take:
  "getOperatorRoleArn p operator c =
     (''arn:aws:iam::'' @ AccountID c @ '':role'') @ CHR ''/'' #
       take 64 (p @ ''-'' @ OpNamespace operator @ ''-'' @ OpName operator)"
  by (simp add: getOperatorRoleArn_def Let_def)

lemma getOperatorRoleArn_slash: "CHR ''/'' \<in> set (getOperatorRoleArn p operator c)"
  by (simp add: getOperatorRoleArn_take)

lemma getOperatorRoleArn_name:
  assumes "CHR ''/'' \<notin> set (AccountID c)"
  shows "index1 (SplitN2 (getOperatorRoleArn p operator c) CHR ''/'') =
           Inr (take 64 (p @ ''-'' @ OpNamespace operator @ ''-'' @ OpName operator))"
proof -
  from assms have "CHR ''/'' \<notin> set (''arn:aws:iam::'' @ AccountID c @ '':role'')"
    by simp
  from SplitN2_append [OF this] show ?thesis
    by (simp only: getOperatorRoleArn_take index1_two)
qed

lemma validateRoleName_no_panic:
  "CHR ''/'' \<in> set (RoleARN role) \<Longrightarrow>
   snd (validateRoleName env role u) = Inr () \<or> snd (validateRoleName env role u) = Inl (Exit 1)"
  by (simp add: validateRoleName_def index1_SplitN2_present split: option.splits)

lemma validate_loop_no_panic:
  "\<forall>role \<in> set roles. CHR ''/'' \<in> set (RoleARN role) \<Longrightarrow>
   snd (forEach roles (validateRoleName env) u) = Inr ()
   \<or> snd (forEach roles (validateRoleName env) u) = Inl (Exit 1)"
proof (induction roles arbitrary: u)
  case Nil
  then show ?case by simp
next
  case (Cons role roles)
  then have "CHR ''/'' \<in> set (RoleARN role)"
    by simp
  from validateRoleName_no_panic [OF this]
  have "snd (validateRoleName env role u) = Inr ()
             \<or> snd (validateRoleName env role u) = Inl (Exit 1)" .
  moreover from Cons have "snd (forEach roles (validateRoleName env) ()) = Inr ()
             \<or> snd (forEach roles (validateRoleName env) ()) = Inl (Exit 1)"
    by simp
  ultimately show ?case
    by (auto simp add: snd_bind)
qed

text \<open>
  C10: every role of the operator IAM role list has a \<open>RoleARN\<close> that contains \<open>/\<close>, so
  \<open>strings.SplitN(role.RoleARN, "/", 2)[1]\<close> is in bounds and the loop that validates
  the role names never panics. For an AWS account ID, which contains no \<open>/\<close>, the text
  after the first \<open>/\<close> is the role name of the operator, cut to 64 bytes, and is not
  empty.
\<close>

theorem operator_role_name_in_bounds:
  assumes "forEach (aws_CredentialRequests env) (planOperator env version p c) [] = (t, Inr roles)"
    and "role \<in> set roles"
  shows "CHR ''/'' \<in> set (RoleARN role)
       \<and> (\<exists>name. index1 (SplitN2 (RoleARN role) CHR ''/'') = Inr name)
       \<and> (CHR ''/'' \<notin> set (AccountID c) \<longrightarrow>
            (\<exists>operator \<in> set (aws_CredentialRequests env).
               index1 (SplitN2 (RoleARN role) CHR ''/'') =
                 Inr (take 64 (p @ ''-'' @ OpNamespace operator @ ''-'' @ OpName operator))
               \<and> take 64 (p @ ''-'' @ OpNamespace operator @ ''-'' @ OpName operator) \<noteq> ''''))
       \<and> (\<forall>q. snd (forEach roles (validateRoleName env) ()) \<noteq> Inl (Panic q))"
proof -
  from plan_loop_result [OF assms(1)] have
    roles: "set roles \<subseteq> operatorIAMRole p c ` set (aws_CredentialRequests env)"
    by auto
  with assms(2) obtain operator where
    op: "operator \<in> set (aws_CredentialRequests env)" "role = operatorIAMRole p c operator"
    by blast
  then have arn: "RoleARN role = getOperatorRoleArn p operator c"
    by (simp add: operatorIAMRole_def)
  have slash: "CHR ''/'' \<in> set (RoleARN role)"
    by (simp add: arn getOperatorRoleArn_slash)
  from roles have "\<forall>role \<in> set roles. CHR ''/'' \<in> set (RoleARN role)"
    by (auto simp add: operatorIAMRole_def getOperatorRoleArn_slash)
  from validate_loop_no_panic [OF this, of env "()"]
  have safe: "\<forall>q. snd (forEach roles (validateRoleName env) ()) \<noteq> Inl (Panic q)"
    by auto
  have named: "\<exists>operator \<in> set (aws_CredentialRequests env).
               index1 (SplitN2 (RoleARN role) CHR ''/'') =
                 Inr (take 64 (p @ ''-'' @ OpNamespace operator @ ''-'' @ OpName operator))
               \<and> take 64 (p @ ''-'' @ OpNamespace operator @ ''-'' @ OpName operator) \<noteq> ''''"
    if "CHR ''/'' \<notin> set (AccountID c)"
    using getOperatorRoleArn_name [OF that, of p operator] op(1) arn
    by (intro bexI [of _ operator]) simp_all
  from slash safe named show ?thesis
    by (simp add: index1_SplitN2_present)
qed

theorem operator_role_name_in_bounds_witness:
  "CHR ''/'' \<in> set ''arn:aws:iam::123456789012:role/c1-ab12-openshift-ingress-operator-cloud-credentials''
   \<and> index1 (SplitN2 ''arn:aws:iam::123456789012:role/c1-ab12-openshift-ingress-operator-cloud-credentials''
      CHR ''/'') = Inr ''c1-ab12-openshift-ingress-operator-cloud-credentials''
   \<and> snd (forEach
        [\<lparr>Name = ''aws-cloud-credentials'', Namespace = ''openshift-machine-api'',
          RoleARN = ''arn:aws:iam::123456789012:role/c1-ab12-openshift-machine-api-aws-cloud-credentials''\<rparr>,
         \<lparr>Name = ''cloud-credentials'', Namespace = ''openshift-ingress-operator'',
          RoleARN = ''arn:aws:iam::123456789012:role/c1-ab12-openshift-ingress-operator-cloud-credentials''\<rparr>]
        (validateRoleName example_env) ()) \<noteq> Inl (Panic IndexOutOfRange)"
proof -
  let ?c = "\<lparr>AccountID = ''123456789012''\<rparr>"
  let ?role = "\<lparr>Name = ''cloud-credentials'', Namespace = ''openshift-ingress-operator'',
          RoleARN = ''arn:aws:iam::123456789012:role/c1-ab12-openshift-ingress-operator-cloud-credentials''\<rparr>"
  let ?roles = "[\<lparr>Name = ''aws-cloud-credentials'', Namespace = ''openshift-machine-api'',
          RoleARN = ''arn:aws:iam::123456789012:role/c1-ab12-openshift-machine-api-aws-cloud-credentials''\<rparr>,
         ?role]"
  have loop: "forEach (aws_CredentialRequests example_env)
                (planOperator example_env ''4.9'' ''c1-ab12'' ?c) [] = ([], Inr ?roles)"
    by (simp add: example_env_def example_CredentialRequests_def planOperator_def
          example_CheckSupportedVersion_def operatorIAMRole_def getOperatorRoleArn_def)
  have mem: "?role \<in> set ?roles"
    by simp
  from operator_role_name_in_bounds [OF loop mem]
  have "CHR ''/'' \<in> set (RoleARN ?role)"
    and "\<forall>q. snd (forEach ?roles (validateRoleName example_env) ()) \<noteq> Inl (Panic q)"
    by blast+
  then show ?thesis
    by (simp add: SplitN2_def)
qed

section \<open>The command list services: its output\<close>

lemma printService_loop:
  "forEach servicesList printService u =
     (map (\<lambda>srv. Fprintf (ID srv @ [CHR 0x09] @ Service srv @ [CHR 0x09] @ ServiceState srv
                            @ [CHR 0x0A])) servicesList, Inr ())"
  by (induction servicesList arbitrary: u) (simp_all add: printService_def)

lemma written_rows:
  "concat (map (\<lambda>e. case e of Fprintf s \<Rightarrow> s | _ \<Rightarrow> []) (map (\<lambda>srv. Fprintf (row srv)) servicesList))
     = concat (map row servicesList)"
  by (induction servicesList) simp_all

text \<open>
  C9: when every call succeeds, list services asks once for at most 1000 managed
  services, writes the header row \<open>ID\tSERVICE\tSTATE\<close> and then one tab-separated row
  with ID, service name and state per record, in the order returned, flushes, and does
  nothing else; with no record it prints the header row only.
\<close>

theorem list_services_table:
  assumes "list_ocm_Build env = None"
    and "list_ocm_Close env = None"
    and "ocm_ListManagedServices env 1000 = Inr servicesList"
  shows "list_run env =
           (CallListManagedServices 1000
              # Fprintf (''ID'' @ [CHR 0x09] @ ''SERVICE'' @ [CHR 0x09] @ ''STATE'' @ [CHR 0x0A])
              # map (\<lambda>srv. Fprintf (ID srv @ [CHR 0x09] @ Service srv @ [CHR 0x09]
                                     @ ServiceState srv @ [CHR 0x0A])) servicesList
              @ [Flush, CallClose],
            Inr ())
       \<and> written (fst (list_run env)) =
           (''ID'' @ [CHR 0x09] @ ''SERVICE'' @ [CHR 0x09] @ ''STATE'' @ [CHR 0x0A])
             @ concat (map (\<lambda>srv. ID srv @ [CHR 0x09] @ Service srv @ [CHR 0x09]
                                   @ ServiceState srv @ [CHR 0x0A]) servicesList)
       \<and> (servicesList = [] \<longrightarrow>
            written (fst (list_run env)) =
              ''ID'' @ [CHR 0x09] @ ''SERVICE'' @ [CHR 0x09] @ ''STATE'' @ [CHR 0x0A])"
proof -
  have trace: "list_run env =
           (CallListManagedServices 1000
              # Fprintf (''ID'' @ [CHR 0x09] @ ''SERVICE'' @ [CHR 0x09] @ ''STATE'' @ [CHR 0x0A])
              # map (\<lambda>srv. Fprintf (ID srv @ [CHR 0x09] @ Service srv @ [CHR 0x09]
                                     @ ServiceState srv @ [CHR 0x0A])) servicesList
              @ [Flush, CallClose],
            Inr ())"
    using assms
    by (simp add: list_run_def listConnected_def deferredClose_def printService_loop)
  have out: "written (fst (list_run env)) =
           (''ID'' @ [CHR 0x09] @ ''SERVICE'' @ [CHR 0x09] @ ''STATE'' @ [CHR 0x0A])
             @ concat (map (\<lambda>srv. ID srv @ [CHR 0x09] @ Service srv @ [CHR 0x09]
                                   @ ServiceState srv @ [CHR 0x0A]) servicesList)"
    unfolding trace written_def
    using written_rows [of "\<lambda>srv. ID srv @ [CHR 0x09] @ Service srv @ [CHR 0x09]
                                   @ ServiceState srv @ [CHR 0x0A]" servicesList]
    by simp
  from out have "servicesList = [] \<longrightarrow>
            written (fst (list_run env)) =
              ''ID'' @ [CHR 0x09] @ ''SERVICE'' @ [CHR 0x09] @ ''STATE'' @ [CHR 0x0A]"
    by simp
  with trace out show ?thesis by (intro conjI)
qed

theorem list_services_table_witness:
  "written (fst (list_run example_listEnv)) =
     ''ID'' @ [CHR 0x09] @ ''SERVICE'' @ [CHR 0x09] @ ''STATE'' @ [CHR 0x0A]
     @ ''1a2b'' @ [CHR 0x09] @ ''s1'' @ [CHR 0x09] @ ''ready'' @ [CHR 0x0A]
     @ ''3c4d'' @ [CHR 0x09] @ ''s2'' @ [CHR 0x09] @ ''installing'' @ [CHR 0x0A]
   \<and> written (fst (list_run (example_listEnv\<lparr>ocm_ListManagedServices := \<lambda>limit. Inr []\<rparr>))) =
     ''ID'' @ [CHR 0x09] @ ''SERVICE'' @ [CHR 0x09] @ ''STATE'' @ [CHR 0x0A]"
proof -
  have "list_ocm_Build example_listEnv = None" "list_ocm_Close example_listEnv = None"
    "ocm_ListManagedServices example_listEnv 1000 =
       Inr [\<lparr>ID = ''1a2b'', Service = ''s1'', ServiceState = ''ready''\<rparr>,
            \<lparr>ID = ''3c4d'', Service = ''s2'', ServiceState = ''installing''\<rparr>]"
    by (simp_all add: example_listEnv_def)
  from list_services_table [OF this]
  have full: "written (fst (list_run example_listEnv)) =
     ''ID'' @ [CHR 0x09] @ ''SERVICE'' @ [CHR 0x09] @ ''STATE'' @ [CHR 0x0A]
     @ ''1a2b'' @ [CHR 0x09] @ ''s1'' @ [CHR 0x09] @ ''ready'' @ [CHR 0x0A]
     @ ''3c4d'' @ [CHR 0x09] @ ''s2'' @ [CHR 0x09] @ ''installing'' @ [CHR 0x0A]"
    by (simp add: written_def)
  let ?e = "example_listEnv\<lparr>ocm_ListManagedServices := \<lambda>limit. Inr []\<rparr>"
  have "list_ocm_Build ?e = None" "list_ocm_Close ?e = None"
    "ocm_ListManagedServices ?e 1000 = Inr []"
    by (simp_all add: example_listEnv_def)
  from list_services_table [OF this]
  have "written (fst (list_run ?e)) =
     ''ID'' @ [CHR 0x09] @ ''SERVICE'' @ [CHR 0x09] @ ''STATE'' @ [CHR 0x0A]"
    by (simp add: written_def)
  with full show ?thesis by simp
qed

section \<open>No installer role\<close>

text \<open>
  C5: when the lookup of the installer role finds no ARN, the command reports that no
  account roles were found and that \<open>rosa create account-roles\<close> has to be run first,
  and exits with status 1; the lookup of the installer role is the only call it has
  made, so no role of the three dependent categories is looked up.
\<close>

theorem no_installer_role_aborts:
  assumes "ocm_Build env = None"
    and "aws_FindRoleARNs env InstallerAccountRole (ocm_GetVersionMinor env ''4.9'') = Inr []"
  shows "run env =
           ([CallFindRoleARNs InstallerAccountRole (ocm_GetVersionMinor env ''4.9''),
             Errorf (''No account roles found. '' @
               ''You will need to run 'rosa create account-roles' to create them first.''),
             Errorf ''Please create the above roles to continue''],
            Inl (Exit 1))"
  using assms
  by (simp add: run_def runConnected_def resolveAccountRoles_def resolveRoleVars_def findRoleARNs_def
        selectInstallerRole_def resolveDependentRoles_def deferredClose_def Let_def)

theorem no_installer_role_aborts_witness:
  "run (example_env\<lparr>aws_FindRoleARNs := \<lambda>roleType minor. Inr []\<rparr>) =
     ([CallFindRoleARNs InstallerAccountRole ''4.9'',
       Errorf (''No account roles found. '' @
         ''You will need to run 'rosa create account-roles' to create them first.''),
       Errorf ''Please create the above roles to continue''],
      Inl (Exit 1))"
proof -
  let ?e = "example_env\<lparr>aws_FindRoleARNs := \<lambda>roleType minor. Inr []\<rparr>"
  have "ocm_Build ?e = None"
    "aws_FindRoleARNs ?e InstallerAccountRole (ocm_GetVersionMinor ?e ''4.9'') = Inr []"
    by (simp_all add: example_env_def)
  from no_installer_role_aborts [OF this] show ?thesis
    by (simp add: example_env_def)
qed

section \<open>Substrings\<close>

lemma HasPrefix_iff: "HasPrefix s p \<longleftrightarrow> (\<exists>b. s = p @ b)"
  by (induction s p rule: HasPrefix.induct) auto

lemma Contains_iff: "Contains s substr \<longleftrightarrow> (\<exists>a b. s = a @ substr @ b)"
proof (induction s)
  case Nil
  then show ?case by auto
next
  case (Cons c cs)
  show ?case
  proof
    assume "Contains (c # cs) substr"
    then consider "HasPrefix (c # cs) substr" | "Contains cs substr" by auto
    then show "\<exists>a b. c # cs = a @ substr @ b"
    proof cases
      case 1
      then obtain b where "c # cs = substr @ b" by (auto simp add: HasPrefix_iff)
      then have "c # cs = [] @ substr @ b" by simp
      then show ?thesis by blast
    next
      case 2
      with Cons obtain a b where "cs = a @ substr @ b" by blast
      then have "c # cs = (c # a) @ substr @ b" by simp
      then show ?thesis by blast
    qed
  next
    assume "\<exists>a b. c # cs = a @ substr @ b"
    then obtain a b where ab: "c # cs = a @ substr @ b" by blast
    show "Contains (c # cs) substr"
    proof (cases a)
      case Nil
      with ab have "HasPrefix (c # cs) substr" by (auto simp add: HasPrefix_iff)
      then show ?thesis by simp
    next
      case (Cons x a')
      with ab have "cs = a' @ substr @ b" by simp
      with Cons.IH have "Contains cs substr" by blast
      then show ?thesis by simp
    qed
  qed
qed

lemma lastContaining_filter:
  "lastContaining pattern start roleARNs =
     (if filter (\<lambda>rARN. Contains rARN pattern) roleARNs = [] then start
      else last (filter (\<lambda>rARN. Contains rARN pattern) roleARNs))"
  unfolding lastContaining_def
  by (induction roleARNs arbitrary: start) auto

section \<open>The installer role\<close>

text \<open>
  C3, as the code has it: for a list of more than one installer-role ARN, the selected
  ARN is the last element that contains \<open><default-prefix>-<RoleName>-Role\<close> when some
  element contains it, whatever its position, and the first element otherwise; in both
  cases the warning that more than one role was found is emitted, naming the selected
  ARN, and nothing else is reported.
\<close>

theorem installer_role_selection:
  assumes "1 < length roleARNs"
    and "pattern = aws_DefaultPrefix env @ ''-'' @ RoleName role @ ''-Role''"
  shows "\<exists>selected.
           selectInstallerRole env role roleARNs =
             ([Warnf (''More than one '' @ RoleName role @ '' role found, going with ''
                      @ selected)], Inr selected)
         \<and> ((\<exists>rARN \<in> set roleARNs. \<exists>a b. rARN = a @ pattern @ b) \<longrightarrow>
              selected = last (filter (\<lambda>rARN. Contains rARN pattern) roleARNs)
              \<and> selected \<in> set roleARNs \<and> (\<exists>a b. selected = a @ pattern @ b))
         \<and> ((\<forall>rARN \<in> set roleARNs. \<not> (\<exists>a b. rARN = a @ pattern @ b)) \<longrightarrow>
              selected = hd roleARNs)"
proof -
  let ?matches = "filter (\<lambda>rARN. Contains rARN pattern) roleARNs"
  let ?selected = "lastContaining pattern (roleARNs ! 0) roleARNs"
  have run: "selectInstallerRole env role roleARNs =
             ([Warnf (''More than one '' @ RoleName role @ '' role found, going with ''
                      @ ?selected)], Inr ?selected)"
    using assms by (simp add: selectInstallerRole_def Let_def)
  have some: "?selected = last ?matches \<and> ?selected \<in> set roleARNs
              \<and> (\<exists>a b. ?selected = a @ pattern @ b)"
    if "\<exists>rARN \<in> set roleARNs. \<exists>a b. rARN = a @ pattern @ b"
  proof -
    from that have nonempty: "?matches \<noteq> []"
      by (auto simp add: filter_empty_conv Contains_iff)
    then have sel: "?selected = last ?matches"
      by (simp add: lastContaining_filter)
    from nonempty have "last ?matches \<in> set ?matches"
      by (rule last_in_set)
    then have "last ?matches \<in> set roleARNs" "Contains (last ?matches) pattern"
      by simp_all
    with sel show ?thesis
      by (simp add: Contains_iff)
  qed
  have none: "?selected = hd roleARNs"
    if "\<forall>rARN \<in> set roleARNs. \<not> (\<exists>a b. rARN = a @ pattern @ b)"
  proof -
    from that have "?matches = []"
      by (auto simp add: filter_empty_conv Contains_iff)
    moreover from assms(1) have "roleARNs ! 0 = hd roleARNs"
      by (cases roleARNs) simp_all
    ultimately show ?thesis
      by (simp add: lastContaining_filter)
  qed
  from run some none show ?thesis by blast
qed

theorem installer_role_selection_witness:
  "selectInstallerRole example_env \<lparr>RoleName = ''Installer''\<rparr>
     [''arn:aws:iam::123456789012:role/ManagedOpenShift-Installer-Role'',
      ''arn:aws:iam::123456789012:role/test-Installer-Role''] =
     ([Warnf (''More than one Installer role found, going with '' @
              ''arn:aws:iam::123456789012:role/ManagedOpenShift-Installer-Role'')],
      Inr ''arn:aws:iam::123456789012:role/ManagedOpenShift-Installer-Role'')"
proof -
  have "1 < length [''arn:aws:iam::123456789012:role/ManagedOpenShift-Installer-Role'',
      ''arn:aws:iam::123456789012:role/test-Installer-Role'']"
    and "''ManagedOpenShift-Installer-Role'' =
           aws_DefaultPrefix example_env @ ''-'' @ RoleName \<lparr>RoleName = ''Installer''\<rparr> @ ''-Role''"
    by (simp_all add: example_env_def)
  from installer_role_selection [OF this]
  show ?thesis
    by (auto simp add: example_env_def)
qed

text \<open>
  The claim as stated fails: here an ARN with the default prefix is found, in second
  position, and the warning is emitted all the same.
\<close>

theorem installer_role_warning_counterexample:
  "Contains ''arn:aws:iam::123456789012:role/ManagedOpenShift-Installer-Role''
     (aws_DefaultPrefix example_env @ ''-'' @ ''Installer'' @ ''-Role'')
   \<and> Warnf (''More than one Installer role found, going with '' @
            ''arn:aws:iam::123456789012:role/ManagedOpenShift-Installer-Role'')
       \<in> set (fst (selectInstallerRole example_env \<lparr>RoleName = ''Installer''\<rparr>
                 [''arn:aws:iam::123456789012:role/test-Installer-Role'',
                  ''arn:aws:iam::123456789012:role/ManagedOpenShift-Installer-Role'']))"
  by (simp add: example_env_def selectInstallerRole_def lastContaining_def Let_def)

section \<open>The loop over the account roles\<close>

lemma infoUsing_snd [simp]: "snd (infoUsing env arn role) = Inr ()"
  by (simp add: infoUsing_def)

lemma infoUsing_fst:
  "fst (infoUsing env arn role) =
     (if \<not> output_HasFlag env \<or> reporter_IsTerminal env
      then [Infof (''Using '' @ arn @ '' for the '' @ RoleName role @ '' role'')] else [])"
  by (simp add: infoUsing_def)

lemma roleVar_assignRole:
  "roleVar t (assignRole roleType selectedARN vars) =
     (if t = roleType then selectedARN else roleVar t vars)"
  by (cases t; cases roleType) simp_all

lemma hasRoles_assignRole [simp]:
  "hasRoles (assignRole roleType selectedARN vars) = hasRoles vars"
  by (cases roleType) simp_all

lemma roleVar_hasRoles_update [simp]:
  "roleVar t (vars\<lparr>hasRoles := b\<rparr>) = roleVar t vars"
  by (cases t) simp_all

lemma resolveRole_installer [simp]:
  "resolveRole env minor rolePrefix (InstallerAccountRole, role) vars = ([], Inr vars)"
  by (simp add: resolveRole_def)

lemma resolveRole_error:
  assumes "roleType \<noteq> InstallerAccountRole"
    and "aws_FindRoleARNs env roleType minor = Inl err"
  shows "resolveRole env minor rolePrefix (roleType, role) vars =
           ([CallFindRoleARNs roleType minor,
             Errorf (''Failed to find '' @ RoleName role @ '' role: '' @ err)], Inl (Exit 1))"
  using assms by (simp add: resolveRole_def findRoleARNs_def)

lemma resolveRole_found:
  assumes "roleType \<noteq> InstallerAccountRole"
    and "aws_FindRoleARNs env roleType minor = Inr roleARNs"
    and "selectedARN = lastContaining (rolePrefix @ ''-'' @ RoleName role @ ''-Role'') '''' roleARNs"
  shows "resolveRole env minor rolePrefix (roleType, role) vars =
           (CallFindRoleARNs roleType minor #
              (if selectedARN = '''' then
                 [Errorf (''No '' @ RoleName role @ '' account roles found. '' @
                    ''You will need to run 'rosa create account-roles' to create them first.''),
                  CallInteractiveEnable]
               else [])
              @ fst (infoUsing env selectedARN role),
            Inr (assignRole roleType selectedARN
                   (if selectedARN = '''' then vars\<lparr>hasRoles := False\<rparr> else vars)))"
  using assms
  by (simp add: resolveRole_def findRoleARNs_def Let_def prod_eq_iff fst_bind snd_bind)

text \<open>What one pass of the loop body does to the variables, when it does not exit.\<close>

lemma resolveRole_vars:
  assumes "snd (resolveRole env minor rolePrefix (roleType, role) vars) = Inr vars'"
  shows "(hasRoles vars' \<longrightarrow> hasRoles vars)
       \<and> (hasRoles vars' \<longrightarrow> roleType \<noteq> InstallerAccountRole \<longrightarrow> roleVar roleType vars' \<noteq> '''')
       \<and> (\<forall>t. t \<noteq> roleType \<or> roleType = InstallerAccountRole \<longrightarrow> roleVar t vars' = roleVar t vars)"
proof (cases "roleType = InstallerAccountRole")
  case True
  with assms show ?thesis by simp
next
  case False
  show ?thesis
  proof (cases "aws_FindRoleARNs env roleType minor")
    case (Inl err)
    from resolveRole_error [OF False Inl] assms show ?thesis by simp
  next
    case (Inr roleARNs)
    from resolveRole_found [OF False Inr refl] assms False show ?thesis
      by (auto simp add: roleVar_assignRole split: if_splits)
  qed
qed

lemma resolveRole_loop_vars:
  assumes "snd (forEach entries (resolveRole env minor rolePrefix) vars) = Inr vars'"
    and "hasRoles vars'"
  shows "hasRoles vars
       \<and> (\<forall>t \<in> fst ` set entries. t \<noteq> InstallerAccountRole \<longrightarrow> roleVar t vars' \<noteq> '''')
       \<and> (\<forall>t. roleVar t vars \<noteq> '''' \<longrightarrow> roleVar t vars' \<noteq> '''')"
  using assms
proof (induction entries arbitrary: vars)
  case Nil
  then show ?case by simp
next
  case (Cons entry entries)
  obtain roleType role where entry: "entry = (roleType, role)"
    by (cases entry)
  from Cons.prems(1) obtain vars1 where
    step: "snd (resolveRole env minor rolePrefix (roleType, role) vars) = Inr vars1"
    and rest: "snd (forEach entries (resolveRole env minor rolePrefix) vars1) = Inr vars'"
    by (auto simp add: entry snd_bind split: sum.splits)
  from Cons.IH [OF rest Cons.prems(2)] have
    ih: "hasRoles vars1"
      "\<forall>t \<in> fst ` set entries. t \<noteq> InstallerAccountRole \<longrightarrow> roleVar t vars' \<noteq> ''''"
      "\<forall>t. roleVar t vars1 \<noteq> '''' \<longrightarrow> roleVar t vars' \<noteq> ''''"
    by blast+
  from resolveRole_vars [OF step] ih(1) have
    head: "hasRoles vars"
      "roleType \<noteq> InstallerAccountRole \<longrightarrow> roleVar roleType vars1 \<noteq> ''''"
      "\<forall>t. t \<noteq> roleType \<or> roleType = InstallerAccountRole \<longrightarrow> roleVar t vars1 = roleVar t vars"
    by blast+
  have keep: "roleVar t vars' \<noteq> ''''" if "roleVar t vars \<noteq> ''''" for t
  proof (cases "t \<noteq> roleType \<or> roleType = InstallerAccountRole")
    case True
    with head(3) that have "roleVar t vars1 \<noteq> ''''" by simp
    with ih(3) show ?thesis by blast
  next
    case False
    with head(2) have "roleVar t vars1 \<noteq> ''''" by simp
    with ih(3) show ?thesis by blast
  qed
  from head(2) ih(3) have "roleType \<noteq> InstallerAccountRole \<longrightarrow> roleVar roleType vars' \<noteq> ''''"
    by blast
  with head(1) ih(2) keep show ?case
    by (auto simp add: entry)
qed

section \<open>Where the create request is issued\<close>

lemma create_in_bind:
  assumes "CallCreateManagedService a \<in> set (fst (bind m f))"
    and "CallCreateManagedService a \<notin> set (fst m)"
  shows "\<exists>x. snd m = Inr x \<and> CallCreateManagedService a \<in> set (fst (f x))"
  using assms by (cases m; cases "snd m") (auto simp add: fst_bind)

lemma no_create_bind:
  assumes "CallCreateManagedService a \<notin> set (fst m)"
    and "\<And>x. snd m = Inr x \<Longrightarrow> CallCreateManagedService a \<notin> set (fst (f x))"
  shows "CallCreateManagedService a \<notin> set (fst (bind m f))"
  using assms by (cases m; cases "snd m") (auto simp add: fst_bind)

lemma no_create_forEach:
  assumes "\<And>x s. CallCreateManagedService a \<notin> set (fst (body x s))"
  shows "CallCreateManagedService a \<notin> set (fst (forEach xs body s))"
proof (induction xs arbitrary: s)
  case Nil
  then show ?case by simp
next
  case (Cons x xs)
  show ?case
    by (simp only: forEach.simps) (rule no_create_bind, rule assms, rule Cons.IH)
qed

lemma no_create_findRoleARNs:
  "CallCreateManagedService a \<notin> set (fst (findRoleARNs env roleType minor role))"
  by (simp add: findRoleARNs_def split: sum.splits)

lemma no_create_selectInstallerRole:
  "CallCreateManagedService a \<notin> set (fst (selectInstallerRole env role roleARNs))"
  by (simp add: selectInstallerRole_def Let_def fst_bind infoUsing_fst)

lemma no_create_resolveRole:
  "CallCreateManagedService a \<notin> set (fst (resolveRole env minor rolePrefix entry vars))"
proof (cases entry)
  case (Pair roleType role)
  show ?thesis
  proof (cases "roleType = InstallerAccountRole")
    case True
    with Pair show ?thesis by simp
  next
    case False
    show ?thesis
    proof (cases "aws_FindRoleARNs env roleType minor")
      case (Inl err)
      from resolveRole_error [OF False Inl] Pair show ?thesis by simp
    next
      case (Inr roleARNs)
      from resolveRole_found [OF False Inr refl] Pair show ?thesis
        by (simp add: infoUsing_fst)
    qed
  qed
qed

lemma no_create_resolveDependentRoles:
  "CallCreateManagedService a \<notin> set (fst (resolveDependentRoles env minor role vars))"
proof -
  have loop: "CallCreateManagedService a \<notin>
      set (fst (forEach (aws_AccountRoles env) (resolveRole env minor rolePrefix) vars'))"
    for rolePrefix vars'
    by (rule no_create_forEach) (rule no_create_resolveRole)
  show ?thesis
    by (simp add: resolveDependentRoles_def fst_bind loop split: sum.splits)
qed

lemma no_create_resolveRoleVars:
  "CallCreateManagedService a \<notin> set (fst (resolveRoleVars env version))"
  unfolding resolveRoleVars_def Let_def
  by (intro no_create_bind no_create_findRoleARNs no_create_selectInstallerRole
        no_create_resolveDependentRoles)

lemma no_create_resolveAccountRoles:
  "CallCreateManagedService a \<notin> set (fst (resolveAccountRoles env version args))"
  unfolding resolveAccountRoles_def
  by (rule no_create_bind) (simp_all add: no_create_resolveRoleVars)

lemma no_create_planOperator:
  "CallCreateManagedService a \<notin> set (fst (planOperator env version p c operator acc))"
  by (simp add: planOperator_eq split: sum.splits)

lemma no_create_validateRoleName:
  "CallCreateManagedService a \<notin> set (fst (validateRoleName env role u))"
  by (simp add: validateRoleName_def split: sum.splits option.splits)

lemma no_create_resolveOperatorRoles:
  "CallCreateManagedService a \<notin> set (fst (resolveOperatorRoles env version args))"
proof -
  have plan: "CallCreateManagedService a \<notin>
      set (fst (forEach (aws_CredentialRequests env) (planOperator env version p c) []))" for p c
    by (rule no_create_forEach) (rule no_create_planOperator)
  have validate: "CallCreateManagedService a \<notin>
      set (fst (forEach roles (validateRoleName env) ()))" for roles
    by (rule no_create_forEach) (rule no_create_validateRoleName)
  show ?thesis
    by (simp add: resolveOperatorRoles_def Let_def fst_bind plan validate split: sum.splits)
qed

lemma no_create_resolveRegion:
  "CallCreateManagedService a \<notin> set (fst (resolveRegion env args))"
  by (simp add: resolveRegion_def split: sum.splits)

lemma no_create_setParameter:
  "CallCreateManagedService a \<notin> set (fst (setParameter env paramID args))"
  by (simp add: setParameter_def split: option.splits)

lemma no_create_resolveParameters:
  "CallCreateManagedService a \<notin> set (fst (resolveParameters env args))"
proof -
  have loop: "CallCreateManagedService a \<notin>
      set (fst (forEach paramIDs (setParameter env) args))" for paramIDs
    by (rule no_create_forEach) (rule no_create_setParameter)
  show ?thesis
    by (simp add: resolveParameters_def fst_bind loop split: prod.splits option.splits)
qed

lemma create_in_createService:
  "CallCreateManagedService a \<in> set (fst (createService env args)) \<Longrightarrow> a = args"
  by (simp add: createService_def Let_def split: sum.splits)

section \<open>The role ARNs of the request\<close>

lemma resolveOperatorRoles_roles:
  assumes "snd (resolveOperatorRoles env version args) = Inr args'"
  shows "AwsRoleARN args' = AwsRoleARN args \<and> AwsSupportRoleARN args' = AwsSupportRoleARN args
       \<and> AwsControlPlaneRoleARN args' = AwsControlPlaneRoleARN args
       \<and> AwsWorkerRoleARN args' = AwsWorkerRoleARN args"
  using assms
  by (auto simp add: resolveOperatorRoles_def Let_def snd_bind split: sum.splits)

lemma resolveRegion_roles:
  assumes "snd (resolveRegion env args) = Inr args'"
  shows "AwsRoleARN args' = AwsRoleARN args \<and> AwsSupportRoleARN args' = AwsSupportRoleARN args
       \<and> AwsControlPlaneRoleARN args' = AwsControlPlaneRoleARN args
       \<and> AwsWorkerRoleARN args' = AwsWorkerRoleARN args"
  using assms
  by (auto simp add: resolveRegion_def split: sum.splits)

lemma setParameter_loop_roles:
  assumes "snd (forEach paramIDs (setParameter env) args) = Inr args'"
  shows "AwsRoleARN args' = AwsRoleARN args \<and> AwsSupportRoleARN args' = AwsSupportRoleARN args
       \<and> AwsControlPlaneRoleARN args' = AwsControlPlaneRoleARN args
       \<and> AwsWorkerRoleARN args' = AwsWorkerRoleARN args"
  using assms
proof (induction paramIDs arbitrary: args)
  case Nil
  then show ?case by simp
next
  case (Cons paramID paramIDs)
  from Cons.prems obtain args1 where
    step: "snd (setParameter env paramID args) = Inr args1"
    and rest: "snd (forEach paramIDs (setParameter env) args1) = Inr args'"
    by (auto simp add: snd_bind split: sum.splits)
  from step have "AwsRoleARN args1 = AwsRoleARN args \<and> AwsSupportRoleARN args1 = AwsSupportRoleARN args
       \<and> AwsControlPlaneRoleARN args1 = AwsControlPlaneRoleARN args
       \<and> AwsWorkerRoleARN args1 = AwsWorkerRoleARN args"
    by (auto simp add: setParameter_def split: option.splits)
  with Cons.IH [OF rest] show ?case by simp
qed

lemma resolveParameters_roles:
  assumes "snd (resolveParameters env args) = Inr args'"
  shows "AwsRoleARN args' = AwsRoleARN args \<and> AwsSupportRoleARN args' = AwsSupportRoleARN args
       \<and> AwsControlPlaneRoleARN args' = AwsControlPlaneRoleARN args
       \<and> AwsWorkerRoleARN args' = AwsWorkerRoleARN args"
proof (cases "ocm_GetAddOn env (ServiceName args)")
  case (Pair addOnParameters err)
  show ?thesis
  proof (cases addOnParameters)
    case None
    with Pair assms show ?thesis
      by (auto simp add: resolveParameters_def snd_bind split: option.splits)
  next
    case (Some paramIDs)
    with Pair assms have "snd (forEach paramIDs (setParameter env) args) = Inr args'"
      by (auto simp add: resolveParameters_def snd_bind split: option.splits)
    then show ?thesis by (rule setParameter_loop_roles)
  qed
qed

lemma resolveDependentRoles_vars:
  assumes "snd (resolveDependentRoles env minor role vars) = Inr vars'"
    and "\<not> hasRoles vars"
    and "hasRoles vars'"
  shows "roleARN vars' \<noteq> ''''
       \<and> (\<forall>t \<in> fst ` set (aws_AccountRoles env). t \<noteq> InstallerAccountRole \<longrightarrow> roleVar t vars' \<noteq> '''')"
proof (cases "roleARN vars = ''''")
  case True
  with assms show ?thesis by (simp add: resolveDependentRoles_def)
next
  case False
  with assms(1) obtain rolePrefix where
    loop: "snd (forEach (aws_AccountRoles env) (resolveRole env minor rolePrefix)
                  (vars\<lparr>hasRoles := True\<rparr>)) = Inr vars'"
    by (auto simp add: resolveDependentRoles_def snd_bind split: sum.splits)
  from False have "roleVar InstallerAccountRole (vars\<lparr>hasRoles := True\<rparr>) \<noteq> ''''"
    by simp
  with resolveRole_loop_vars [OF loop assms(3)] have
    "roleVar InstallerAccountRole vars' \<noteq> ''''"
    "\<forall>t \<in> fst ` set (aws_AccountRoles env). t \<noteq> InstallerAccountRole \<longrightarrow> roleVar t vars' \<noteq> ''''"
    by blast+
  then show ?thesis by simp
qed

lemma resolveRoleVars_vars:
  assumes "snd (resolveRoleVars env version) = Inr vars"
    and "hasRoles vars"
  shows "roleARN vars \<noteq> ''''
       \<and> (\<forall>t \<in> fst ` set (aws_AccountRoles env). t \<noteq> InstallerAccountRole \<longrightarrow> roleVar t vars \<noteq> '''')"
proof -
  from assms(1) obtain installer where
    "snd (resolveDependentRoles env (ocm_GetVersionMinor env version)
            (accountRole env InstallerAccountRole)
            \<lparr>roleARN = installer, supportRoleARN = '''', controlPlaneRoleARN = '''',
             workerRoleARN = '''', hasRoles = False\<rparr>) = Inr vars"
    by (auto simp add: resolveRoleVars_def Let_def snd_bind split: sum.splits)
  from resolveDependentRoles_vars [OF this _ assms(2)] show ?thesis by simp
qed

lemma create_in_deferredClose:
  "CallCreateManagedService a \<in> set (fst (deferredClose closeResult body)) \<Longrightarrow>
   CallCreateManagedService a \<in> set (fst body)"
  by (cases body; cases "snd body")
     (auto simp add: deferredClose_def split: outcome.splits option.splits)

lemma deferredClose_Exit:
  "snd body = Inl (Exit code) \<Longrightarrow> deferredClose closeResult body = body"
  by (cases body) (simp add: deferredClose_def)

lemma create_in_run:
  assumes "CallCreateManagedService a \<in> set (fst (run env))"
  shows "\<exists>args1 args2 args3.
           snd (resolveAccountRoles env ''4.9'' (initialArgs env)) = Inr args1
         \<and> snd (resolveOperatorRoles env ''4.9'' args1) = Inr args2
         \<and> snd (resolveRegion env args2) = Inr args3
         \<and> snd (resolveParameters env args3) = Inr a"
proof (cases "ocm_Build env")
  case (Some err)
  with assms show ?thesis by (simp add: run_def)
next
  case None
  with assms have "CallCreateManagedService a \<in> set (fst (runConnected env))"
    by (simp add: run_def create_in_deferredClose)
  then have body: "CallCreateManagedService a \<in> set (fst
      (bind (resolveAccountRoles env ''4.9'' (initialArgs env)) (\<lambda>args.
       bind (resolveOperatorRoles env ''4.9'' args) (\<lambda>args.
       bind (resolveRegion env args) (\<lambda>args.
       bind (resolveParameters env args) (\<lambda>args.
       createService env args))))))"
    by (simp add: runConnected_def Let_def)
  from create_in_bind [OF body no_create_resolveAccountRoles] obtain args1 where
    r1: "snd (resolveAccountRoles env ''4.9'' (initialArgs env)) = Inr args1"
    and b1: "CallCreateManagedService a \<in> set (fst
       (bind (resolveOperatorRoles env ''4.9'' args1) (\<lambda>args.
        bind (resolveRegion env args) (\<lambda>args.
        bind (resolveParameters env args) (\<lambda>args.
        createService env args)))))"
    by blast
  from create_in_bind [OF b1 no_create_resolveOperatorRoles] obtain args2 where
    r2: "snd (resolveOperatorRoles env ''4.9'' args1) = Inr args2"
    and b2: "CallCreateManagedService a \<in> set (fst
       (bind (resolveRegion env args2) (\<lambda>args.
        bind (resolveParameters env args) (\<lambda>args.
        createService env args))))"
    by blast
  from create_in_bind [OF b2 no_create_resolveRegion] obtain args3 where
    r3: "snd (resolveRegion env args2) = Inr args3"
    and b3: "CallCreateManagedService a \<in> set (fst
       (bind (resolveParameters env args3) (\<lambda>args. createService env args)))"
    by blast
  from create_in_bind [OF b3 no_create_resolveParameters] obtain args4 where
    r4: "snd (resolveParameters env args3) = Inr args4"
    and b4: "CallCreateManagedService a \<in> set (fst (createService env args4))"
    by blast
  from b4 have "a = args4" by (rule create_in_createService)
  with r1 r2 r3 r4 show ?thesis by blast
qed

lemma resolveAccountRoles_incomplete:
  assumes "snd (resolveRoleVars env version) = Inr vars"
    and "\<not> hasRoles vars"
  shows "resolveAccountRoles env version args =
           (fst (resolveRoleVars env version)
              @ [Errorf ''Please create the above roles to continue''], Inl (Exit 1))"
  using assms
  by (cases "resolveRoleVars env version") (simp add: resolveAccountRoles_def)

lemma resolveAccountRoles_complete:
  assumes "snd (resolveAccountRoles env version args) = Inr args'"
  shows "\<exists>vars. snd (resolveRoleVars env version) = Inr vars \<and> hasRoles vars
           \<and> AwsRoleARN args' = roleARN vars \<and> AwsSupportRoleARN args' = supportRoleARN vars
           \<and> AwsControlPlaneRoleARN args' = controlPlaneRoleARN vars
           \<and> AwsWorkerRoleARN args' = workerRoleARN vars"
  using assms
  by (auto simp add: resolveAccountRoles_def snd_bind split: sum.splits if_splits)

section \<open>The create request and the account roles\<close>

text \<open>
  C1: \<open>aws.AccountRoles\<close> has the four role categories. Then every create request that
  \<open>run\<close> issues carries four non-empty account-role ARNs; and when the resolution of the
  account roles leaves any of the four ARNs empty, \<open>run\<close> exits with status 1 and
  \<open>CreateManagedService\<close> is never called.
\<close>

theorem create_request_has_all_roles:
  assumes "{SupportAccountRole, ControlPlaneAccountRole, WorkerAccountRole}
             \<subseteq> fst ` set (aws_AccountRoles env)"
  shows "(\<forall>args. CallCreateManagedService args \<in> set (fst (run env)) \<longrightarrow>
            AwsRoleARN args \<noteq> '''' \<and> AwsSupportRoleARN args \<noteq> ''''
            \<and> AwsControlPlaneRoleARN args \<noteq> '''' \<and> AwsWorkerRoleARN args \<noteq> '''')
       \<and> (\<forall>vars. ocm_Build env = None \<longrightarrow> snd (resolveRoleVars env ''4.9'') = Inr vars \<longrightarrow>
            (roleARN vars = '''' \<or> supportRoleARN vars = '''' \<or> controlPlaneRoleARN vars = ''''
             \<or> workerRoleARN vars = '''') \<longrightarrow>
            snd (run env) = Inl (Exit 1)
            \<and> (\<forall>args. CallCreateManagedService args \<notin> set (fst (run env))))"
proof -
  have complete: "roleARN vars \<noteq> '''' \<and> supportRoleARN vars \<noteq> ''''
       \<and> controlPlaneRoleARN vars \<noteq> '''' \<and> workerRoleARN vars \<noteq> ''''"
    if "snd (resolveRoleVars env ''4.9'') = Inr vars" and "hasRoles vars" for vars
  proof -
    from resolveRoleVars_vars [OF that] have
      "roleARN vars \<noteq> ''''"
      and all: "\<forall>t \<in> fst ` set (aws_AccountRoles env). t \<noteq> InstallerAccountRole \<longrightarrow> roleVar t vars \<noteq> ''''"
      by blast+
    moreover from assms all have "roleVar SupportAccountRole vars \<noteq> ''''"
      "roleVar ControlPlaneAccountRole vars \<noteq> ''''" "roleVar WorkerAccountRole vars \<noteq> ''''"
      by auto
    ultimately show ?thesis by simp
  qed
  have issued: "AwsRoleARN args \<noteq> '''' \<and> AwsSupportRoleARN args \<noteq> ''''
            \<and> AwsControlPlaneRoleARN args \<noteq> '''' \<and> AwsWorkerRoleARN args \<noteq> ''''"
    if "CallCreateManagedService args \<in> set (fst (run env))" for args
  proof -
    from create_in_run [OF that] obtain args1 args2 args3 where
      r1: "snd (resolveAccountRoles env ''4.9'' (initialArgs env)) = Inr args1"
      and r2: "snd (resolveOperatorRoles env ''4.9'' args1) = Inr args2"
      and r3: "snd (resolveRegion env args2) = Inr args3"
      and r4: "snd (resolveParameters env args3) = Inr args"
      by blast
    from resolveAccountRoles_complete [OF r1] obtain vars where
      vars: "snd (resolveRoleVars env ''4.9'') = Inr vars" "hasRoles vars"
      and a1: "AwsRoleARN args1 = roleARN vars" "AwsSupportRoleARN args1 = supportRoleARN vars"
        "AwsControlPlaneRoleARN args1 = controlPlaneRoleARN vars"
        "AwsWorkerRoleARN args1 = workerRoleARN vars"
      by blast
    from complete [OF vars] a1 resolveOperatorRoles_roles [OF r2] resolveRegion_roles [OF r3]
      resolveParameters_roles [OF r4]
    show ?thesis by simp
  qed
  have aborts: "snd (run env) = Inl (Exit 1)
            \<and> (\<forall>args. CallCreateManagedService args \<notin> set (fst (run env)))"
    if build: "ocm_Build env = None"
      and vars: "snd (resolveRoleVars env ''4.9'') = Inr vars"
      and empty: "roleARN vars = '''' \<or> supportRoleARN vars = '''' \<or> controlPlaneRoleARN vars = ''''
             \<or> workerRoleARN vars = ''''" for vars
  proof -
    from complete [OF vars] empty have "\<not> hasRoles vars" by blast
    from resolveAccountRoles_incomplete [OF vars this]
    have "snd (runConnected env) = Inl (Exit 1)"
      by (simp add: runConnected_def Let_def)
    with build have exit: "snd (run env) = Inl (Exit 1)"
      by (simp add: run_def deferredClose_Exit)
    have "CallCreateManagedService args \<notin> set (fst (run env))" for args
    proof
      assume "CallCreateManagedService args \<in> set (fst (run env))"
      from create_in_run [OF this] obtain args1 where
        "snd (resolveAccountRoles env ''4.9'' (initialArgs env)) = Inr args1"
        by blast
      with resolveAccountRoles_incomplete [OF vars \<open>\<not> hasRoles vars\<close>] show False
        by simp
    qed
    with exit show ?thesis by blast
  qed
  from issued aborts show ?thesis by blast
qed

section \<open>Runs in the example environment\<close>

lemma run_example_env:
  "run example_env =
     ([CallFindRoleARNs InstallerAccountRole ''4.9'',
       Infof ''Using arn:aws:iam::123456789012:role/ManagedOpenShift-Installer-Role for the Installer role'',
       Debugf (''Using '' @ [CHR 0x27] @ ''ManagedOpenShift'' @ [CHR 0x27] @ '' as the role prefix''),
       CallFindRoleARNs ControlPlaneAccountRole ''4.9'',
       Infof ''Using arn:aws:iam::123456789012:role/ManagedOpenShift-ControlPlane-Role for the ControlPlane role'',
       CallFindRoleARNs WorkerAccountRole ''4.9'',
       Infof ''Using arn:aws:iam::123456789012:role/ManagedOpenShift-Worker-Role for the Worker role'',
       CallFindRoleARNs SupportAccountRole ''4.9'',
       Infof ''Using arn:aws:iam::123456789012:role/ManagedOpenShift-Support-Role for the Support role'',
       CallGetCreator,
       CallValidateRoleNameAvailable ''c1-ab12-openshift-machine-api-aws-cloud-credentials'',
       CallValidateRoleNameAvailable ''c1-ab12-openshift-ingress-operator-cloud-credentials'',
       CallGetRegion '''',
       Infof ''Using AWS region: us-east-1'',
       CallGetAddOn ''s1'',
       CallCreateManagedService example_args,
       Infof ''service'',
       Infof (''Run the following commands to continue the cluster creation:''
              @ [CHR 0x0A, CHR 0x0A, CHR 0x09] @ ''rosa create operator-roles --cluster c1''
              @ [CHR 0x0A, CHR 0x09] @ ''rosa create oidc-provider --cluster c1'' @ [CHR 0x0A]),
       CallClose],
      Inr ())"
  by code_simp

lemma resolveRoleVars_no_support:
  "snd (resolveRoleVars example_env_no_support ''4.9'') =
     Inr \<lparr>roleARN = ''arn:aws:iam::123456789012:role/ManagedOpenShift-Installer-Role'',
          supportRoleARN = '''',
          controlPlaneRoleARN = ''arn:aws:iam::123456789012:role/ManagedOpenShift-ControlPlane-Role'',
          workerRoleARN = ''arn:aws:iam::123456789012:role/ManagedOpenShift-Worker-Role'',
          hasRoles = False\<rparr>"
  by code_simp

theorem create_request_has_all_roles_witness:
  "CallCreateManagedService example_args \<in> set (fst (run example_env))
   \<and> AwsRoleARN example_args \<noteq> '''' \<and> AwsSupportRoleARN example_args \<noteq> ''''
   \<and> AwsControlPlaneRoleARN example_args \<noteq> '''' \<and> AwsWorkerRoleARN example_args \<noteq> ''''
   \<and> snd (run example_env_no_support) = Inl (Exit 1)
   \<and> CallCreateManagedService example_args \<notin> set (fst (run example_env_no_support))"
proof -
  have keys: "{SupportAccountRole, ControlPlaneAccountRole, WorkerAccountRole}
                \<subseteq> fst ` set (aws_AccountRoles example_env)"
    by (simp add: example_env_def)
  have issued: "CallCreateManagedService example_args \<in> set (fst (run example_env))"
    by (simp add: run_example_env)
  from create_request_has_all_roles [OF keys] issued
  have roles: "AwsRoleARN example_args \<noteq> '''' \<and> AwsSupportRoleARN example_args \<noteq> ''''
     \<and> AwsControlPlaneRoleARN example_args \<noteq> '''' \<and> AwsWorkerRoleARN example_args \<noteq> ''''"
    by blast
  have keys': "{SupportAccountRole, ControlPlaneAccountRole, WorkerAccountRole}
                \<subseteq> fst ` set (aws_AccountRoles example_env_no_support)"
    and build: "ocm_Build example_env_no_support = None"
    by (simp_all add: example_env_no_support_def example_env_def)
  from create_request_has_all_roles [OF keys'] build resolveRoleVars_no_support
  have "snd (run example_env_no_support) = Inl (Exit 1)
     \<and> (\<forall>args. CallCreateManagedService args \<notin> set (fst (run example_env_no_support)))"
    by simp
  with issued roles show ?thesis by blast
qed

section \<open>The add-on parameters\<close>

text \<open>
  C2 at a failing lookup of the add-on: the error is reported, and \<open>run\<close> goes on,
  submits the create request and returns normally.
\<close>

theorem addon_failure_still_creates:
  "fst (run example_env_addon_failure) =
     [CallFindRoleARNs InstallerAccountRole ''4.9'',
       Infof ''Using arn:aws:iam::123456789012:role/ManagedOpenShift-Installer-Role for the Installer role'',
       Debugf (''Using '' @ [CHR 0x27] @ ''ManagedOpenShift'' @ [CHR 0x27] @ '' as the role prefix''),
       CallFindRoleARNs ControlPlaneAccountRole ''4.9'',
       Infof ''Using arn:aws:iam::123456789012:role/ManagedOpenShift-ControlPlane-Role for the ControlPlane role'',
       CallFindRoleARNs WorkerAccountRole ''4.9'',
       Infof ''Using arn:aws:iam::123456789012:role/ManagedOpenShift-Worker-Role for the Worker role'',
       CallFindRoleARNs SupportAccountRole ''4.9'',
       Infof ''Using arn:aws:iam::123456789012:role/ManagedOpenShift-Support-Role for the Support role'',
       CallGetCreator,
       CallValidateRoleNameAvailable ''c1-ab12-openshift-machine-api-aws-cloud-credentials'',
       CallValidateRoleNameAvailable ''c1-ab12-openshift-ingress-operator-cloud-credentials'',
       CallGetRegion '''',
       Infof ''Using AWS region: us-east-1'',
       CallGetAddOn ''s1'',
       Errorf ''Failed to process service parameters: add-on not found'',
       CallCreateManagedService example_args,
       Infof ''service'',
       Infof (''Run the following commands to continue the cluster creation:''
              @ [CHR 0x0A, CHR 0x0A, CHR 0x09] @ ''rosa create operator-roles --cluster c1''
              @ [CHR 0x0A, CHR 0x09] @ ''rosa create oidc-provider --cluster c1'' @ [CHR 0x0A]),
       CallClose]
   \<and> snd (run example_env_addon_failure) = Inr ()"
  by code_simp

text \<open>
  C8 at an add-on parameter whose ID is the name of a flag: \<open>args.Parameters\<close> is the nil
  map, the assignment to its entry panics, and no create request is submitted.
\<close>

theorem addon_parameter_panics:
  "flagLookup example_env_addon_parameter ''clusterName'' = Some ''c1''
   \<and> run example_env_addon_parameter =
     ([CallFindRoleARNs InstallerAccountRole ''4.9'',
       Infof ''Using arn:aws:iam::123456789012:role/ManagedOpenShift-Installer-Role for the Installer role'',
       Debugf (''Using '' @ [CHR 0x27] @ ''ManagedOpenShift'' @ [CHR 0x27] @ '' as the role prefix''),
       CallFindRoleARNs ControlPlaneAccountRole ''4.9'',
       Infof ''Using arn:aws:iam::123456789012:role/ManagedOpenShift-ControlPlane-Role for the ControlPlane role'',
       CallFindRoleARNs WorkerAccountRole ''4.9'',
       Infof ''Using arn:aws:iam::123456789012:role/ManagedOpenShift-Worker-Role for the Worker role'',
       CallFindRoleARNs SupportAccountRole ''4.9'',
       Infof ''Using arn:aws:iam::123456789012:role/ManagedOpenShift-Support-Role for the Support role'',
       CallGetCreator,
       CallValidateRoleNameAvailable ''c1-ab12-openshift-machine-api-aws-cloud-credentials'',
       CallValidateRoleNameAvailable ''c1-ab12-openshift-ingress-operator-cloud-credentials'',
       CallGetRegion '''',
       Infof ''Using AWS region: us-east-1'',
       CallGetAddOn ''s1'',
       CallClose],
      Inl (Panic NilMapAssignment))"
  by code_simp

text \<open>
  What the callback does to a map that has been allocated, and when no flag has the name
  of the parameter.
\<close>

lemma setParameter_allocated:
  "Parameters args = Some m \<Longrightarrow> flagLookup env paramID = Some v \<Longrightarrow>
   setParameter env paramID args = ([], Inr (args\<lparr>Parameters := Some (AList.update paramID v m)\<rparr>))"
  by (simp add: setParameter_def)

lemma setParameter_no_flag:
  "flagLookup env paramID = None \<Longrightarrow> setParameter env paramID args = ([], Inr args)"
  by (simp add: setParameter_def)

lemma setParameter_nil:
  "Parameters args = None \<Longrightarrow> flagLookup env paramID = Some v \<Longrightarrow>
   setParameter env paramID args = ([], Inl (Panic NilMapAssignment))"
  by (simp add: setParameter_def)

section \<open>The dependent account roles\<close>


lemma TrimSuffix_other: "\<not> HasSuffix s suffix \<Longrightarrow> TrimSuffix s suffix = s"
  by (simp add: TrimSuffix_def)

lemma HasSuffix_iff: "HasSuffix s suffix \<longleftrightarrow> (\<exists>p. s = p @ suffix)"
proof
  assume "HasSuffix s suffix"
  then have "s = take (length s - length suffix) s @ suffix"
    by (metis HasSuffix_def append_take_drop_id)
  then show "\<exists>p. s = p @ suffix" ..
next
  assume "\<exists>p. s = p @ suffix"
  then show "HasSuffix s suffix"
    by (auto simp add: HasSuffix_def)
qed









end
